theory Spec2Isabelle
  imports Complex_Main
begin

section \<open>Values, errors and mappings\<close>

text \<open>
  The source is \<^verbatim>\<open>abtem/transfer.py\<close>. Floating-point numbers are modelled by the
  reals: rounding, the conversion \<^verbatim>\<open>DTYPE(...)\<close>, signed zeros and NaN are not part
  of the model. An exception of the source is a value \<open>Inl e\<close> of the result type.
  Where the source divides a number by a wavelength that is zero (Python raises
  \<^verbatim>\<open>ZeroDivisionError\<close> on floats, numpy scalars yield infinities and NaN) the
  model returns \<open>Inl ZeroDivisionError\<close>: no array of reals is produced. Where the
  source divides an array by zero, numpy does not raise; the model follows it where
  every element of the result is a real, and returns \<open>Inl Not_a_number\<close> where an
  element would be a NaN.
\<close>

datatype error =
    ValueError string
  | KeyError string
  | ZeroDivisionError
  | RuntimeError string
  | Not_a_number

text \<open>
  An \<^verbatim>\<open>ndarray\<close> of some shape is the function from the indices of that shape to
  the elements; the arrays \<^verbatim>\<open>alpha\<close> and \<^verbatim>\<open>phi\<close> of one call have one shape
  \<open>'i\<close>, and every arithmetic operation of the source is elementwise.
\<close>

type_synonym 'i ndarray = "'i \<Rightarrow> real"
type_synonym 'i cndarray = "'i \<Rightarrow> complex"

text \<open>A \<^verbatim>\<open>Mapping[str, float]\<close>, and the dictionary \<^verbatim>\<open>self._parameters\<close>.\<close>

type_synonym parameter_mapping = "string \<rightharpoonup> real"

definition bind_err :: "'e + 'a \<Rightarrow> ('a \<Rightarrow> 'e + 'b) \<Rightarrow> 'e + 'b" where
  "bind_err m f = (case m of Inl e \<Rightarrow> Inl e | Inr x \<Rightarrow> f x)"

text \<open>
  The subscripts \<^verbatim>\<open>parameters[k]\<close> of one expression, in the order in which the
  source evaluates them: the first missing key raises \<^verbatim>\<open>KeyError\<close>; otherwise the
  values read are returned (as a function that is only applied to the keys read).
\<close>

fun getitems :: "parameter_mapping \<Rightarrow> string list \<Rightarrow> error + (string \<Rightarrow> real)" where
  "getitems d [] = Inr (\<lambda>_. 0)"
| "getitems d (k # ks) =
     (case d k of
        None \<Rightarrow> Inl (KeyError k)
      | Some v \<Rightarrow> (case getitems d ks of Inl e \<Rightarrow> Inl e | Inr p \<Rightarrow> Inr (p(k := v))))"

definition polar_symbols :: "string list" where
  "polar_symbols =
     [''C10'', ''C12'', ''phi12'',
      ''C21'', ''phi21'', ''C23'', ''phi23'',
      ''C30'', ''C32'', ''phi32'', ''C34'', ''phi34'',
      ''C41'', ''phi41'', ''C43'', ''phi43'', ''C45'', ''phi45'',
      ''C50'', ''C52'', ''phi52'', ''C54'', ''phi54'', ''C56'', ''phi56'']"

definition polar_aliases :: "(string \<times> string) list" where
  "polar_aliases =
     [(''defocus'', ''C10''), (''astigmatism'', ''C12''), (''astigmatism_angle'', ''phi12''),
      (''coma'', ''C21''), (''coma_angle'', ''phi21''),
      (''Cs'', ''C30''),
      (''C5'', ''C50'')]"

section \<open>The phase error\<close>

text \<open>\<^verbatim>\<open>calculate_symmetric_chi\<close> (lines 25-50).\<close>

definition calculate_symmetric_chi ::
    "'i ndarray \<Rightarrow> real \<Rightarrow> parameter_mapping \<Rightarrow> error + 'i ndarray" where
  "calculate_symmetric_chi alpha wavelength parameters =
     (let alpha2 = (\<lambda>i. (alpha i)\<^sup>2) in
      if wavelength = 0 then Inl ZeroDivisionError
      else bind_err (getitems parameters [''C10'', ''C30'', ''C50'']) (\<lambda>p.
        Inr (\<lambda>i. 2 * pi / wavelength * (1 / 2 * alpha2 i * p ''C10'' +
                                          1 / 4 * (alpha2 i)\<^sup>2 * p ''C30'' +
                                          1 / 6 * (alpha2 i) ^ 3 * p ''C50''))))"

text \<open>
  \<^verbatim>\<open>calculate_polar_chi\<close> (lines 53-112). Each \<^verbatim>\<open>if any([...]): array += ...\<close>
  of the source is one of the five functions below: the list comprehension reads every
  symbol of the tuple, and the guarded statement reads the symbols of its expression.
  The tuple of the fourth group is written as in the source, with \<^verbatim>\<open>'phi41'\<close> twice
  and without \<^verbatim>\<open>'phi45'\<close>.
\<close>

definition any_nonzero :: "(string \<Rightarrow> real) \<Rightarrow> string list \<Rightarrow> bool" where
  "any_nonzero p symbols = list_ex (\<lambda>symbol. p symbol \<noteq> 0) symbols"

definition polar_chi_order1 ::
    "parameter_mapping \<Rightarrow> 'i ndarray \<Rightarrow> 'i ndarray \<Rightarrow> 'i ndarray \<Rightarrow> error + 'i ndarray" where
  "polar_chi_order1 parameters alpha phi array =
     bind_err (getitems parameters [''C10'', ''C12'', ''phi12'']) (\<lambda>p.
       if any_nonzero p [''C10'', ''C12'', ''phi12'']
       then Inr (\<lambda>i. array i +
              1 / 2 * (alpha i)\<^sup>2 *
                (p ''C10'' +
                 p ''C12'' * cos (2 * (phi i - p ''phi12''))))
       else Inr array)"

definition polar_chi_order2 ::
    "parameter_mapping \<Rightarrow> 'i ndarray \<Rightarrow> 'i ndarray \<Rightarrow> 'i ndarray \<Rightarrow> error + 'i ndarray" where
  "polar_chi_order2 parameters alpha phi array =
     bind_err (getitems parameters [''C21'', ''phi21'', ''C23'', ''phi23'']) (\<lambda>p.
       if any_nonzero p [''C21'', ''phi21'', ''C23'', ''phi23'']
       then Inr (\<lambda>i. array i +
              1 / 3 * (alpha i)\<^sup>2 * alpha i *
                (p ''C21'' * cos (phi i - p ''phi21'') +
                 p ''C23'' * cos (3 * (phi i - p ''phi23''))))
       else Inr array)"

definition polar_chi_order3 ::
    "parameter_mapping \<Rightarrow> 'i ndarray \<Rightarrow> 'i ndarray \<Rightarrow> 'i ndarray \<Rightarrow> error + 'i ndarray" where
  "polar_chi_order3 parameters alpha phi array =
     bind_err (getitems parameters [''C30'', ''C32'', ''phi32'', ''C34'', ''phi34'']) (\<lambda>p.
       if any_nonzero p [''C30'', ''C32'', ''phi32'', ''C34'', ''phi34'']
       then Inr (\<lambda>i. array i +
              1 / 4 * ((alpha i)\<^sup>2)\<^sup>2 *
                (p ''C30'' +
                 p ''C32'' * cos (2 * (phi i - p ''phi32'')) +
                 p ''C34'' * cos (4 * (phi i - p ''phi34''))))
       else Inr array)"

definition polar_chi_order4 ::
    "parameter_mapping \<Rightarrow> 'i ndarray \<Rightarrow> 'i ndarray \<Rightarrow> 'i ndarray \<Rightarrow> error + 'i ndarray" where
  "polar_chi_order4 parameters alpha phi array =
     bind_err (getitems parameters [''C41'', ''phi41'', ''C43'', ''phi43'', ''C45'', ''phi41'']) (\<lambda>p.
       if any_nonzero p [''C41'', ''phi41'', ''C43'', ''phi43'', ''C45'', ''phi41'']
       then bind_err (getitems parameters
                        [''C41'', ''phi41'', ''C43'', ''phi43'', ''C45'', ''phi45'']) (\<lambda>q.
              Inr (\<lambda>i. array i +
                1 / 5 * ((alpha i)\<^sup>2)\<^sup>2 * alpha i *
                  (q ''C41'' * cos (phi i - q ''phi41'') +
                   q ''C43'' * cos (3 * (phi i - q ''phi43'')) +
                   q ''C45'' * cos (5 * (phi i - q ''phi45'')))))
       else Inr array)"

definition polar_chi_order5 ::
    "parameter_mapping \<Rightarrow> 'i ndarray \<Rightarrow> 'i ndarray \<Rightarrow> 'i ndarray \<Rightarrow> error + 'i ndarray" where
  "polar_chi_order5 parameters alpha phi array =
     bind_err (getitems parameters
                 [''C50'', ''C52'', ''phi52'', ''C54'', ''phi54'', ''C56'', ''phi56'']) (\<lambda>p.
       if any_nonzero p [''C50'', ''C52'', ''phi52'', ''C54'', ''phi54'', ''C56'', ''phi56'']
       then Inr (\<lambda>i. array i +
              1 / 6 * ((alpha i)\<^sup>2) ^ 3 *
                (p ''C50'' +
                 p ''C52'' * cos (2 * (phi i - p ''phi52'')) +
                 p ''C54'' * cos (4 * (phi i - p ''phi54'')) +
                 p ''C56'' * cos (6 * (phi i - p ''phi56''))))
       else Inr array)"

definition calculate_polar_chi ::
    "'i ndarray \<Rightarrow> 'i ndarray \<Rightarrow> real \<Rightarrow> parameter_mapping \<Rightarrow> error + 'i ndarray" where
  "calculate_polar_chi alpha phi wavelength parameters =
     bind_err (polar_chi_order1 parameters alpha phi (\<lambda>i. 0)) (\<lambda>array.
     bind_err (polar_chi_order2 parameters alpha phi array) (\<lambda>array.
     bind_err (polar_chi_order3 parameters alpha phi array) (\<lambda>array.
     bind_err (polar_chi_order4 parameters alpha phi array) (\<lambda>array.
     bind_err (polar_chi_order5 parameters alpha phi array) (\<lambda>array.
       if wavelength = 0 then Inl ZeroDivisionError
       else Inr (\<lambda>i. 2 * pi / wavelength * array i))))))"

text \<open>
  Modelled from the spec: \<^verbatim>\<open>complex_exponential\<close> of \<^verbatim>\<open>abtem.cpu_kernels\<close> is not
  among the sources; section 4.1 gives \<open>aberrations = exp(-i chi)\<close>, so that
  \<^verbatim>\<open>complex_exponential(x)\<close> is \<open>exp(i x)\<close> elementwise.
\<close>

definition complex_exponential :: "'i ndarray \<Rightarrow> 'i cndarray" where
  "complex_exponential x = (\<lambda>i. cis (x i))"

definition calculate_symmetric_aberrations ::
    "'i ndarray \<Rightarrow> real \<Rightarrow> parameter_mapping \<Rightarrow> error + 'i cndarray" where
  "calculate_symmetric_aberrations alpha wavelength parameters =
     bind_err (calculate_symmetric_chi alpha wavelength parameters) (\<lambda>chi.
       Inr (complex_exponential (\<lambda>i. - chi i)))"

definition calculate_polar_aberrations ::
    "'i ndarray \<Rightarrow> 'i ndarray \<Rightarrow> real \<Rightarrow> parameter_mapping \<Rightarrow> error + 'i cndarray" where
  "calculate_polar_aberrations alpha phi wavelength parameters =
     bind_err (calculate_polar_chi alpha phi wavelength parameters) (\<lambda>chi.
       Inr (complex_exponential (\<lambda>i. - chi i)))"

section \<open>Aperture and envelopes\<close>

text \<open>
  A float that may be \<^verbatim>\<open>np.inf\<close>: the semiangle cutoff, whose default is infinite.
\<close>

datatype efloat = Finite real | Infinity

text \<open>
  \<^verbatim>\<open>calculate_aperture\<close> (lines 125-134). With \<^verbatim>\<open>rolloff > 0\<close> and a finite cutoff
  \<open>c\<close>, the three array statements give, elementwise, 0 above \<open>c\<close>, the cosine taper
  between \<open>c - rolloff\<close> and \<open>c\<close>, and 1 elsewhere. With \<open>c = 0\<close> the taper divides by
  zero, but no element selects it. With an infinite cutoff the taper is NaN and both
  comparisons are false, so every element is 1.
\<close>

definition calculate_aperture :: "'i ndarray \<Rightarrow> efloat \<Rightarrow> real \<Rightarrow> 'i ndarray" where
  "calculate_aperture alpha cutoff rolloff =
     (if rolloff > 0 then
        (case cutoff of
           Finite c \<Rightarrow>
             (let rolloff = rolloff * c;
                  array = (\<lambda>i. 0.5 * (1 + cos (pi * (alpha i - c + rolloff) / rolloff)));
                  array = (\<lambda>i. if alpha i > c then 0 else array i)
              in (\<lambda>i. if alpha i > c - rolloff then array i else 1))
         | Infinity \<Rightarrow> (\<lambda>i. 1))
      else
        (case cutoff of
           Finite c \<Rightarrow> (\<lambda>i. if alpha i < c then 1 else 0)
         | Infinity \<Rightarrow> (\<lambda>i. 1)))"

definition calculate_temporal_envelope :: "'i ndarray \<Rightarrow> real \<Rightarrow> real \<Rightarrow> error + 'i ndarray" where
  "calculate_temporal_envelope alpha wavelength focal_spread =
     (if wavelength = 0 then Inl ZeroDivisionError
      else Inr (\<lambda>i. exp (- (0.5 * pi / wavelength * focal_spread * (alpha i)\<^sup>2)\<^sup>2)))"

text \<open>
  \<^verbatim>\<open>calculate_gaussian_envelope\<close> (lines 141-142) divides an array by
  \<^verbatim>\<open>wavelength ** 2\<close>, which numpy does without raising. At the wavelength 0 an
  element with \<open>gaussian_spread * alpha \<noteq> 0\<close> is \<open>exp(-inf) = 0\<close>, and an element with
  \<open>gaussian_spread * alpha = 0\<close> is \<open>exp(0 / 0)\<close>, a NaN.
\<close>

definition calculate_gaussian_envelope :: "'i ndarray \<Rightarrow> real \<Rightarrow> real \<Rightarrow> error + 'i ndarray" where
  "calculate_gaussian_envelope alpha wavelength gaussian_spread =
     (if wavelength = 0 then
        (if \<forall>i. gaussian_spread * alpha i \<noteq> 0 then Inr (\<lambda>i. 0) else Inl Not_a_number)
      else Inr (\<lambda>i. exp (- 0.5 * gaussian_spread\<^sup>2 * (alpha i)\<^sup>2 / wavelength\<^sup>2)))"

text \<open>
  \<^verbatim>\<open>calculate_spatial_envelope\<close> (lines 145-172). \<^verbatim>\<open>dchi_dk\<close> and \<^verbatim>\<open>dchi_dphi\<close> are
  the two local arrays of the source; the division by the wavelength comes first, then
  the subscripts in the order of the expression for \<^verbatim>\<open>dchi_dk\<close>, which reads all 25
  symbols.
\<close>

definition spatial_symbols :: "string list" where
  "spatial_symbols =
     [''C12'', ''phi12'', ''C10'',
      ''C23'', ''phi23'', ''C21'', ''phi21'',
      ''C34'', ''phi34'', ''C32'', ''phi32'', ''C30'',
      ''C45'', ''phi45'', ''C43'', ''phi43'', ''C41'', ''phi41'',
      ''C56'', ''phi56'', ''C54'', ''phi54'', ''C52'', ''phi52'', ''C50'']"

definition dchi_dk :: "(string \<Rightarrow> real) \<Rightarrow> real \<Rightarrow> real \<Rightarrow> real \<Rightarrow> real" where
  "dchi_dk p wavelength alpha phi =
     2 * pi / wavelength * (
       (p ''C12'' * cos (2 * (phi - p ''phi12'')) + p ''C10'') * alpha +
       (p ''C23'' * cos (3 * (phi - p ''phi23'')) +
        p ''C21'' * cos (1 * (phi - p ''phi21''))) * alpha\<^sup>2 +
       (p ''C34'' * cos (4 * (phi - p ''phi34'')) +
        p ''C32'' * cos (2 * (phi - p ''phi32'')) + p ''C30'') * alpha ^ 3 +
       (p ''C45'' * cos (5 * (phi - p ''phi45'')) +
        p ''C43'' * cos (3 * (phi - p ''phi43'')) +
        p ''C41'' * cos (1 * (phi - p ''phi41''))) * alpha ^ 4 +
       (p ''C56'' * cos (6 * (phi - p ''phi56'')) +
        p ''C54'' * cos (4 * (phi - p ''phi54'')) +
        p ''C52'' * cos (2 * (phi - p ''phi52'')) + p ''C50'') * alpha ^ 5)"

definition dchi_dphi :: "(string \<Rightarrow> real) \<Rightarrow> real \<Rightarrow> real \<Rightarrow> real \<Rightarrow> real" where
  "dchi_dphi p wavelength alpha phi =
     - 2 * pi / wavelength * (
       1 / 2 * (2 * p ''C12'' * sin (2 * (phi - p ''phi12''))) * alpha +
       1 / 3 * (3 * p ''C23'' * sin (3 * (phi - p ''phi23'')) +
                1 * p ''C21'' * sin (1 * (phi - p ''phi21''))) * alpha\<^sup>2 +
       1 / 4 * (4 * p ''C34'' * sin (4 * (phi - p ''phi34'')) +
                2 * p ''C32'' * sin (2 * (phi - p ''phi32''))) * alpha ^ 3 +
       1 / 5 * (5 * p ''C45'' * sin (5 * (phi - p ''phi45'')) +
                3 * p ''C43'' * sin (3 * (phi - p ''phi43'')) +
                1 * p ''C41'' * sin (1 * (phi - p ''phi41''))) * alpha ^ 4 +
       1 / 6 * (6 * p ''C56'' * sin (6 * (phi - p ''phi56'')) +
                4 * p ''C54'' * sin (4 * (phi - p ''phi54'')) +
                2 * p ''C52'' * sin (2 * (phi - p ''phi52''))) * alpha ^ 5)"

definition calculate_spatial_envelope ::
    "'i ndarray \<Rightarrow> 'i ndarray \<Rightarrow> real \<Rightarrow> real \<Rightarrow> parameter_mapping \<Rightarrow> error + 'i ndarray" where
  "calculate_spatial_envelope alpha phi wavelength angular_spread parameters =
     (if wavelength = 0 then Inl ZeroDivisionError
      else bind_err (getitems parameters spatial_symbols) (\<lambda>p.
        Inr (\<lambda>i. exp (- sgn angular_spread * (angular_spread / 2)\<^sup>2 *
                        ((dchi_dk p wavelength (alpha i) (phi i))\<^sup>2 +
                         (dchi_dphi p wavelength (alpha i) (phi i))\<^sup>2)))))"

section \<open>Polar and Cartesian coefficients\<close>

text \<open>
  \<^verbatim>\<open>np.arctan2(y, x)\<close>: the angle of the point \<open>(x, y)\<close> in \<open>(-pi, pi]\<close>, and 0 at the
  origin.
\<close>

definition arctan2 :: "real \<Rightarrow> real \<Rightarrow> real" where
  "arctan2 y x =
     (if x > 0 then arctan (y / x)
      else if x < 0 then (if y \<ge> 0 then arctan (y / x) + pi else arctan (y / x) - pi)
      else if y > 0 then pi / 2
      else if y < 0 then - pi / 2
      else 0)"

text \<open>\<^verbatim>\<open>defaultdict(lambda: 0, d)[k]\<close>: a missing key reads as 0.\<close>

definition default0 :: "parameter_mapping \<Rightarrow> string \<Rightarrow> real" where
  "default0 d k = (case d k of None \<Rightarrow> 0 | Some v \<Rightarrow> v)"

definition polar2cartesian :: "parameter_mapping \<Rightarrow> parameter_mapping" where
  "polar2cartesian polar0 =
     (let polar = default0 polar0;
          K = sqrt (3 + sqrt 8)
      in map_of
        [(''C10'', polar ''C10''),
         (''C12a'', - polar ''C12'' * cos (2 * polar ''phi12'')),
         (''C12b'', polar ''C12'' * sin (2 * polar ''phi12'')),
         (''C21a'', polar ''C21'' * sin (polar ''phi21'')),
         (''C21b'', polar ''C21'' * cos (polar ''phi21'')),
         (''C23a'', - polar ''C23'' * sin (3 * polar ''phi23'')),
         (''C23b'', polar ''C23'' * cos (3 * polar ''phi23'')),
         (''C30'', polar ''C30''),
         (''C32a'', - polar ''C32'' * cos (2 * polar ''phi32'')),
         (''C32b'', polar ''C32'' * cos (pi / 2 - 2 * polar ''phi32'')),
         (''C34a'', polar ''C34'' * cos (- 4 * polar ''phi34'')),
         (''C34b'', 1 / 4 * (1 + K\<^sup>2)\<^sup>2 / (K ^ 3 - K) * polar ''C34'' *
                      cos (4 * arctan (1 / K) - 4 * polar ''phi34''))])"

definition cartesian2polar :: "parameter_mapping \<Rightarrow> parameter_mapping" where
  "cartesian2polar cartesian0 =
     (let cartesian = default0 cartesian0
      in map_of
        [(''C10'', cartesian ''C10''),
         (''C12'', - sqrt ((cartesian ''C12a'')\<^sup>2 + (cartesian ''C12b'')\<^sup>2)),
         (''phi12'', - arctan2 (cartesian ''C12b'') (cartesian ''C12a'') / 2),
         (''C21'', sqrt ((cartesian ''C21a'')\<^sup>2 + (cartesian ''C21b'')\<^sup>2)),
         (''phi21'', arctan2 (cartesian ''C21a'') (cartesian ''C21b'')),
         (''C23'', sqrt ((cartesian ''C23a'')\<^sup>2 + (cartesian ''C23b'')\<^sup>2)),
         (''phi23'', - arctan2 (cartesian ''C23a'') (cartesian ''C23b'') / 3),
         (''C30'', cartesian ''C30''),
         (''C32'', - sqrt ((cartesian ''C32a'')\<^sup>2 + (cartesian ''C32b'')\<^sup>2)),
         (''phi32'', - arctan2 (cartesian ''C32b'') (cartesian ''C32a'') / 2),
         (''C34'', sqrt ((cartesian ''C34a'')\<^sup>2 + (cartesian ''C34b'')\<^sup>2)),
         (''phi34'', arctan2 (cartesian ''C34b'') (cartesian ''C34a'') / 4)])"

section \<open>The class CTF\<close>

subsection \<open>Collaborators of \<^verbatim>\<open>abtem.bases\<close>\<close>

text \<open>
  Modelled from the spec: \<^verbatim>\<open>Event\<close>, \<^verbatim>\<open>watched_property\<close> and
  \<^verbatim>\<open>cache_clear_callback\<close> of \<^verbatim>\<open>abtem.bases\<close> are not among the sources. Section
  4.3: an event source holds the registered observers, and a notification runs each of
  them; the one observer a CTF registers clears the grid-evaluation cache on any
  notification, whatever its \<open>change\<close> flag. The counter is the \<^verbatim>\<open>_notify_count\<close> that
  \<^verbatim>\<open>test_grid_notify\<close> reads.
\<close>

datatype callback = Cache_clear_callback

record event =
  callbacks :: "callback list"
  notify_count :: nat

definition register :: "callback \<Rightarrow> event \<Rightarrow> event" where
  "register c e = e\<lparr>callbacks := callbacks e @ [c]\<rparr>"

text \<open>
  Modelled from the spec: \<^verbatim>\<open>Cache\<close> and \<^verbatim>\<open>cached_method\<close> of \<^verbatim>\<open>abtem.bases\<close> are
  not among the sources. Section 4.4: the cache is keyed by the grid and has a capacity
  (1 for a CTF), a further key evicts the oldest entry; section 8: a recompute counter
  tells a recomputation from a cache hit.
\<close>

record ('k, 'v) cache =
  max_size :: nat
  cached :: "('k \<times> 'v) list"
  misses :: nat

definition Cache :: "nat \<Rightarrow> ('k, 'v) cache" where
  "Cache n = \<lparr>max_size = n, cached = [], misses = 0\<rparr>"

definition cache_clear :: "('k, 'v) cache \<Rightarrow> ('k, 'v) cache" where
  "cache_clear c = c\<lparr>cached := []\<rparr>"

definition cache_insert :: "'k \<Rightarrow> 'v \<Rightarrow> ('k, 'v) cache \<Rightarrow> ('k, 'v) cache" where
  "cache_insert key result c =
     (let entries = cached c @ [(key, result)]
      in c\<lparr>cached := drop (length entries - max_size c) entries\<rparr>)"

text \<open>
  Modelled from the spec: \<^verbatim>\<open>Grid\<close> of \<^verbatim>\<open>abtem.bases\<close> is not among the sources.
  Section 6: a grid is defined or not, gives its spatial frequencies \<open>kx\<close> and \<open>ky\<close>
  along the two axes, and is the key of the cache.
\<close>

record ('i, 'j) grid =
  grid_defined :: bool
  kx :: "'i ndarray"
  ky :: "'j ndarray"

subsection \<open>The state of a CTF\<close>

text \<open>
  The attributes that \<^verbatim>\<open>__init__\<close> sets (lines 181-191). Modelled from the spec: the
  accelerator is not among the sources; section 6 gives it a wavelength, unavailable
  while the energy is undefined, which is the field \<open>self_wavelength\<close>. The device
  manager only selects the array library and is left out.
\<close>

record ('i, 'j) ctf =
  self_changed :: event
  self_cache :: "(('i, 'j) grid, ('i \<times> 'j) cndarray) cache"
  self_wavelength :: "real option"
  self_semiangle_cutoff :: efloat
  self_rolloff :: real
  self_focal_spread :: real
  self_angular_spread :: real
  self_gaussian_spread :: real
  self_parameters :: parameter_mapping

text \<open>\<^verbatim>\<open>CTF.set_parameters\<close> (lines 280-294): the loop over \<^verbatim>\<open>parameters.items()\<close>.\<close>

fun set_parameters_items ::
    "(string \<times> real) list \<Rightarrow> parameter_mapping \<Rightarrow> error option \<times> parameter_mapping" where
  "set_parameters_items [] d = (None, d)"
| "set_parameters_items ((symbol, v) # items) d =
     (if d symbol \<noteq> None then set_parameters_items items (d(symbol \<mapsto> v))
      else if symbol = ''defocus'' then
        (case map_of polar_aliases symbol of
           None \<Rightarrow> (Some (KeyError symbol), d)
         | Some target \<Rightarrow> set_parameters_items items (d(target \<mapsto> - v)))
      else if symbol \<in> set (map fst polar_aliases) then
        (case map_of polar_aliases symbol of
           None \<Rightarrow> (Some (KeyError symbol), d)
         | Some target \<Rightarrow> set_parameters_items items (d(target \<mapsto> v)))
      else (Some (ValueError (symbol @ '' not a recognized parameter'')), d))"

definition set_parameters ::
    "(string \<times> real) list \<Rightarrow> ('i, 'j) ctf \<Rightarrow> (error + (string \<times> real) list) \<times> ('i, 'j) ctf" where
  "set_parameters parameters s =
     (case set_parameters_items parameters (self_parameters s) of
        (None, d) \<Rightarrow> (Inr parameters, s\<lparr>self_parameters := d\<rparr>)
      | (Some e, d) \<Rightarrow> (Inl e, s\<lparr>self_parameters := d\<rparr>))"

text \<open>
  \<^verbatim>\<open>CTF.__init__\<close> (lines 177-220). The argument \<open>parameters\<close> is the mapping after
  \<^verbatim>\<open>parameters.update(kwargs)\<close>; the accelerator's wavelength stands for the energy.
  The observer is registered last, after \<^verbatim>\<open>set_parameters\<close>.
\<close>

definition init ::
    "efloat \<Rightarrow> real \<Rightarrow> real \<Rightarrow> real \<Rightarrow> real \<Rightarrow> real option \<Rightarrow> (string \<times> real) list
       \<Rightarrow> error + ('i, 'j) ctf" where
  "init semiangle_cutoff rolloff focal_spread angular_spread gaussian_spread wavelength parameters =
     (let s = \<lparr>self_changed = \<lparr>callbacks = [], notify_count = 0\<rparr>,
               self_cache = Cache 1,
               self_wavelength = wavelength,
               self_semiangle_cutoff = semiangle_cutoff,
               self_rolloff = rolloff,
               self_focal_spread = focal_spread,
               self_angular_spread = angular_spread,
               self_gaussian_spread = gaussian_spread,
               self_parameters = map_of (zip polar_symbols (replicate (length polar_symbols) 0))\<rparr>
      in case set_parameters parameters s of
           (Inl e, s) \<Rightarrow> Inl e
         | (Inr _, s) \<Rightarrow> Inr (s\<lparr>self_changed := register Cache_clear_callback (self_changed s)\<rparr>))"

text \<open>
  The state that \<^verbatim>\<open>CTF()\<close> constructs from the default arguments, for an
  accelerator with the wavelength \<open>w\<close>.
\<close>

abbreviation default_ctf :: "real option \<Rightarrow> ('i, 'j) ctf" where
  "default_ctf w \<equiv>
     \<lparr>self_changed = \<lparr>callbacks = [Cache_clear_callback], notify_count = 0\<rparr>,
      self_cache = Cache 1,
      self_wavelength = w,
      self_semiangle_cutoff = Infinity,
      self_rolloff = 0,
      self_focal_spread = 0,
      self_angular_spread = 0,
      self_gaussian_spread = 0,
      self_parameters = map_of (zip polar_symbols (replicate (length polar_symbols) 0))\<rparr>"

text \<open>
  A notification of the event \<^verbatim>\<open>self.changed\<close>: every registered observer runs, and
  the observer of a CTF clears the cache of \<^verbatim>\<open>evaluate_on_grid\<close>.
\<close>

fun run_callbacks :: "callback list \<Rightarrow> ('i, 'j) ctf \<Rightarrow> ('i, 'j) ctf" where
  "run_callbacks [] s = s"
| "run_callbacks (Cache_clear_callback # cs) s =
     run_callbacks cs (s\<lparr>self_cache := cache_clear (self_cache s)\<rparr>)"

definition notify :: "('i, 'j) ctf \<Rightarrow> ('i, 'j) ctf" where
  "notify s =
     run_callbacks (callbacks (self_changed s))
       (s\<lparr>self_changed := (self_changed s)\<lparr>notify_count := notify_count (self_changed s) + 1\<rparr>\<rparr>)"

text \<open>
  The setters: the properties decorated with \<^verbatim>\<open>watched_property('changed')\<close> (lines
  230-278) and the properties that \<^verbatim>\<open>parametrization_property\<close> builds for the 25
  symbols and for the aliases other than \<^verbatim>\<open>defocus\<close> (lines 200-218). Each assigns
  and then notifies. Modelled from the spec: \<^verbatim>\<open>self.notify_observers\<close> of the latter is
  not defined in the sources; by section 4.2 it is the notification of \<^verbatim>\<open>self.changed\<close>.
\<close>

definition set_defocus :: "real \<Rightarrow> ('i, 'j) ctf \<Rightarrow> ('i, 'j) ctf" where
  "set_defocus v s = notify (s\<lparr>self_parameters := (self_parameters s)(''C10'' \<mapsto> - v)\<rparr>)"

definition set_semiangle_cutoff :: "efloat \<Rightarrow> ('i, 'j) ctf \<Rightarrow> ('i, 'j) ctf" where
  "set_semiangle_cutoff v s = notify (s\<lparr>self_semiangle_cutoff := v\<rparr>)"

definition set_rolloff :: "real \<Rightarrow> ('i, 'j) ctf \<Rightarrow> ('i, 'j) ctf" where
  "set_rolloff v s = notify (s\<lparr>self_rolloff := v\<rparr>)"

definition set_focal_spread :: "real \<Rightarrow> ('i, 'j) ctf \<Rightarrow> ('i, 'j) ctf" where
  "set_focal_spread v s = notify (s\<lparr>self_focal_spread := v\<rparr>)"

definition set_angular_spread :: "real \<Rightarrow> ('i, 'j) ctf \<Rightarrow> ('i, 'j) ctf" where
  "set_angular_spread v s = notify (s\<lparr>self_angular_spread := v\<rparr>)"

definition set_gaussian_spread :: "real \<Rightarrow> ('i, 'j) ctf \<Rightarrow> ('i, 'j) ctf" where
  "set_gaussian_spread v s = notify (s\<lparr>self_gaussian_spread := v\<rparr>)"

definition parametrization_setter :: "string \<Rightarrow> real \<Rightarrow> ('i, 'j) ctf \<Rightarrow> ('i, 'j) ctf" where
  "parametrization_setter key v s = notify (s\<lparr>self_parameters := (self_parameters s)(key \<mapsto> v)\<rparr>)"

text \<open>
  The mutators of a CTF. \<open>Set_symbol\<close> names one of the 25 symbols, \<open>Set_alias\<close> one of
  the aliases other than \<^verbatim>\<open>defocus\<close>, whose property is the one of its symbol.
\<close>

datatype mutation =
    Set_symbol string real
  | Set_alias string real
  | Set_defocus real
  | Set_semiangle_cutoff efloat
  | Set_rolloff real
  | Set_focal_spread real
  | Set_angular_spread real
  | Set_gaussian_spread real
  | Set_parameters "(string \<times> real) list"

fun is_property :: "mutation \<Rightarrow> bool" where
  "is_property (Set_symbol key v) = (key \<in> set polar_symbols)"
| "is_property (Set_alias key v) = (key \<noteq> ''defocus'' \<and> key \<in> set (map fst polar_aliases))"
| "is_property (Set_parameters parameters) = False"
| "is_property m = True"

fun mutate :: "mutation \<Rightarrow> ('i, 'j) ctf \<Rightarrow> ('i, 'j) ctf" where
  "mutate (Set_symbol key v) s = parametrization_setter key v s"
| "mutate (Set_alias key v) s =
     (case map_of polar_aliases key of
        None \<Rightarrow> s
      | Some target \<Rightarrow> parametrization_setter target v s)"
| "mutate (Set_defocus v) s = set_defocus v s"
| "mutate (Set_semiangle_cutoff v) s = set_semiangle_cutoff v s"
| "mutate (Set_rolloff v) s = set_rolloff v s"
| "mutate (Set_focal_spread v) s = set_focal_spread v s"
| "mutate (Set_angular_spread v) s = set_angular_spread v s"
| "mutate (Set_gaussian_spread v) s = set_gaussian_spread v s"
| "mutate (Set_parameters parameters) s = snd (set_parameters parameters s)"

subsection \<open>Evaluation\<close>

definition wavelength_of :: "('i, 'j) ctf \<Rightarrow> error + real" where
  "wavelength_of s =
     (case self_wavelength s of
        None \<Rightarrow> Inl (RuntimeError ''energy is not defined'')
      | Some w \<Rightarrow> Inr w)"

definition evaluate_aperture :: "'a ndarray \<Rightarrow> ('i, 'j) ctf \<Rightarrow> 'a ndarray" where
  "evaluate_aperture alpha s = calculate_aperture alpha (self_semiangle_cutoff s) (self_rolloff s)"

definition evaluate_temporal_envelope :: "'a ndarray \<Rightarrow> ('i, 'j) ctf \<Rightarrow> error + 'a ndarray" where
  "evaluate_temporal_envelope alpha s =
     bind_err (wavelength_of s) (\<lambda>w. calculate_temporal_envelope alpha w (self_focal_spread s))"

definition evaluate_spatial_envelope ::
    "'a ndarray \<Rightarrow> 'a ndarray \<Rightarrow> ('i, 'j) ctf \<Rightarrow> error + 'a ndarray" where
  "evaluate_spatial_envelope alpha phi s =
     bind_err (wavelength_of s) (\<lambda>w.
       calculate_spatial_envelope alpha phi w (self_angular_spread s) (self_parameters s))"

definition evaluate_gaussian_envelope :: "'a ndarray \<Rightarrow> ('i, 'j) ctf \<Rightarrow> error + 'a ndarray" where
  "evaluate_gaussian_envelope alpha s =
     bind_err (wavelength_of s) (\<lambda>w. calculate_gaussian_envelope alpha w (self_gaussian_spread s))"

definition evaluate_aberrations ::
    "'a ndarray \<Rightarrow> 'a ndarray \<Rightarrow> ('i, 'j) ctf \<Rightarrow> error + 'a cndarray" where
  "evaluate_aberrations alpha phi s =
     bind_err (wavelength_of s) (\<lambda>w. calculate_polar_aberrations alpha phi w (self_parameters s))"

definition times_real :: "'a cndarray \<Rightarrow> 'a ndarray \<Rightarrow> 'a cndarray" where
  "times_real array factor = (\<lambda>i. array i * complex_of_real (factor i))"

text \<open>\<^verbatim>\<open>CTF.evaluate\<close> (lines 311-326).\<close>

definition evaluate :: "'a ndarray \<Rightarrow> 'a ndarray \<Rightarrow> ('i, 'j) ctf \<Rightarrow> error + 'a cndarray" where
  "evaluate alpha phi s =
     bind_err (evaluate_aberrations alpha phi s) (\<lambda>array.
     bind_err (if self_semiangle_cutoff s \<noteq> Infinity
               then Inr (times_real array (evaluate_aperture alpha s))
               else Inr array) (\<lambda>array.
     bind_err (if self_focal_spread s > 0
               then bind_err (evaluate_temporal_envelope alpha s) (\<lambda>e. Inr (times_real array e))
               else Inr array) (\<lambda>array.
     bind_err (if self_angular_spread s > 0
               then bind_err (evaluate_spatial_envelope alpha phi s) (\<lambda>e. Inr (times_real array e))
               else Inr array) (\<lambda>array.
     bind_err (if self_gaussian_spread s > 0
               then bind_err (evaluate_gaussian_envelope alpha s) (\<lambda>e. Inr (times_real array e))
               else Inr array) (\<lambda>array.
       Inr array)))))"

text \<open>
  The body of \<^verbatim>\<open>CTF.evaluate_on_grid\<close> (lines 329-340): the row index comes from the
  x axis and the column index from the y axis.
\<close>

definition evaluate_on_grid_body ::
    "('i, 'j) grid \<Rightarrow> ('i, 'j) ctf \<Rightarrow> error + ('i \<times> 'j) cndarray" where
  "evaluate_on_grid_body grid s =
     (if \<not> grid_defined grid then Inl (RuntimeError ''grid is not defined'')
      else bind_err (wavelength_of s) (\<lambda>w.
        let alpha_x = (\<lambda>i. kx grid i * w);
            alpha_y = (\<lambda>j. ky grid j * w);
            alpha = (\<lambda>(i, j). sqrt ((alpha_x i)\<^sup>2 + (alpha_y j)\<^sup>2));
            phi = (\<lambda>(i, j). arctan2 (alpha_x i) (alpha_y j))
        in evaluate alpha phi s))"

text \<open>
  \<^verbatim>\<open>evaluate_on_grid\<close> as decorated with \<^verbatim>\<open>cached_method('cache')\<close>: a cached
  result for the grid is returned as it is; otherwise the body runs, and its result is
  stored and counted.
\<close>

definition evaluate_on_grid ::
    "('i, 'j) grid \<Rightarrow> ('i, 'j) ctf \<Rightarrow> (error + ('i \<times> 'j) cndarray) \<times> ('i, 'j) ctf" where
  "evaluate_on_grid grid s =
     (case map_of (cached (self_cache s)) grid of
        Some result \<Rightarrow> (Inr result, s)
      | None \<Rightarrow>
          (case evaluate_on_grid_body grid s of
             Inl e \<Rightarrow> (Inl e, s)
           | Inr result \<Rightarrow>
               (Inr result,
                s\<lparr>self_cache :=
                    (cache_insert grid result (self_cache s))
                      \<lparr>misses := misses (self_cache s) + 1\<rparr>\<rparr>)))"

section \<open>Definitions that follow the specification\<close>

text \<open>
  The names that \<^verbatim>\<open>set_parameters\<close> is specified to accept (section 4.2): the 25
  canonical symbols and the aliases; the canonical symbol of a name; and the effect of
  one entry, with the sign flip of \<^verbatim>\<open>defocus\<close>.
\<close>

definition recognized :: "string \<Rightarrow> bool" where
  "recognized symbol \<longleftrightarrow> symbol \<in> set polar_symbols \<or> symbol \<in> set (map fst polar_aliases)"

definition canonical :: "string \<Rightarrow> string" where
  "canonical symbol = (case map_of polar_aliases symbol of None \<Rightarrow> symbol | Some target \<Rightarrow> target)"

definition apply_entry :: "string \<times> real \<Rightarrow> parameter_mapping \<Rightarrow> parameter_mapping" where
  "apply_entry e d = d(canonical (fst e) \<mapsto> (if fst e = ''defocus'' then - snd e else snd e))"

text \<open>
  The phase error as section 4.1 writes it, with every order computed: the order \<open>n\<close>
  runs from 1 to 5, the symmetries \<open>m\<close> of order \<open>n\<close> are those of the parity of
  \<open>n + 1\<close> up to \<open>n + 1\<close>, and the coefficient of symmetry 0 has no angle.
\<close>

definition digit :: "nat \<Rightarrow> char" where
  "digit n = (if n < 7 then ''0123456'' ! n else CHR ''?'')"

definition coefficient_name :: "nat \<Rightarrow> nat \<Rightarrow> string" where
  "coefficient_name n m = ''C'' @ [digit n, digit m]"

definition angle_name :: "nat \<Rightarrow> nat \<Rightarrow> string" where
  "angle_name n m = ''phi'' @ [digit n, digit m]"

definition symmetries :: "nat \<Rightarrow> nat list" where
  "symmetries n = filter (\<lambda>m. even (n + 1 + m)) [0..<n + 2]"

definition harmonic :: "(string \<Rightarrow> real) \<Rightarrow> nat \<Rightarrow> nat \<Rightarrow> real \<Rightarrow> real" where
  "harmonic P n m phi =
     (if m = 0 then P (coefficient_name n m)
      else P (coefficient_name n m) * cos (real m * (phi - P (angle_name n m))))"

definition polar_chi_naive :: "(string \<Rightarrow> real) \<Rightarrow> real \<Rightarrow> real \<Rightarrow> real \<Rightarrow> real" where
  "polar_chi_naive P wavelength alpha phi =
     2 * pi / wavelength *
       (\<Sum>n\<leftarrow>[1..<6]. 1 / real (n + 1) * alpha ^ (n + 1) * (\<Sum>m\<leftarrow>symmetries n. harmonic P n m phi))"

section \<open>Reading the parameter mapping\<close>

lemma orders: "[1..<6] = [1, 2, 3, 4, 5::nat]"
  by code_simp

lemma symmetries_simps:
  "symmetries 1 = [0, 2]" "symmetries 2 = [1, 3]" "symmetries 3 = [0, 2, 4]"
  "symmetries 4 = [1, 3, 5]" "symmetries 5 = [0, 2, 4, 6]"
  unfolding symmetries_def by code_simp+

lemma names_simps:
  "coefficient_name 1 0 = ''C10''" "coefficient_name 1 2 = ''C12''" "angle_name 1 2 = ''phi12''"
  "coefficient_name 2 1 = ''C21''" "coefficient_name 2 3 = ''C23''"
  "angle_name 2 1 = ''phi21''" "angle_name 2 3 = ''phi23''"
  "coefficient_name 3 0 = ''C30''" "coefficient_name 3 2 = ''C32''" "coefficient_name 3 4 = ''C34''"
  "angle_name 3 2 = ''phi32''" "angle_name 3 4 = ''phi34''"
  "coefficient_name 4 1 = ''C41''" "coefficient_name 4 3 = ''C43''" "coefficient_name 4 5 = ''C45''"
  "angle_name 4 1 = ''phi41''" "angle_name 4 3 = ''phi43''" "angle_name 4 5 = ''phi45''"
  "coefficient_name 5 0 = ''C50''" "coefficient_name 5 2 = ''C52''" "coefficient_name 5 4 = ''C54''"
  "coefficient_name 5 6 = ''C56''"
  "angle_name 5 2 = ''phi52''" "angle_name 5 4 = ''phi54''" "angle_name 5 6 = ''phi56''"
  by (simp_all add: coefficient_name_def angle_name_def digit_def)

lemma polar_chi_naive_unfold:
  "polar_chi_naive P w a f =
     2 * pi / w *
       (1 / 2 * a\<^sup>2 * (P ''C10'' + P ''C12'' * cos (2 * (f - P ''phi12''))) +
        1 / 3 * a ^ 3 * (P ''C21'' * cos (f - P ''phi21'') + P ''C23'' * cos (3 * (f - P ''phi23''))) +
        1 / 4 * a ^ 4 * (P ''C30'' + P ''C32'' * cos (2 * (f - P ''phi32'')) +
                          P ''C34'' * cos (4 * (f - P ''phi34''))) +
        1 / 5 * a ^ 5 * (P ''C41'' * cos (f - P ''phi41'') + P ''C43'' * cos (3 * (f - P ''phi43'')) +
                          P ''C45'' * cos (5 * (f - P ''phi45''))) +
        1 / 6 * a ^ 6 * (P ''C50'' + P ''C52'' * cos (2 * (f - P ''phi52'')) +
                          P ''C54'' * cos (4 * (f - P ''phi54'')) +
                          P ''C56'' * cos (6 * (f - P ''phi56''))))"
  unfolding polar_chi_naive_def orders list.map sum_list.Cons sum_list.Nil symmetries_simps
    harmonic_def names_simps
  by (simp add: power2_eq_square add.assoc)

lemma getitems_Inr:
  "\<forall>k\<in>set ks. d k = Some (P k) \<Longrightarrow> \<exists>p. getitems d ks = Inr p \<and> (\<forall>k\<in>set ks. p k = P k)"
proof (induction ks)
  case Nil
  then show ?case by simp
next
  case (Cons k ks)
  then obtain p where "getitems d ks = Inr p" "\<forall>k\<in>set ks. p k = P k" by auto
  with Cons.prems show ?case by auto
qed

lemma polar_chi_order1_full:
  assumes full: "\<forall>k\<in>set polar_symbols. d k = Some (P k)"
  shows "polar_chi_order1 d alpha phi array =
           Inr (\<lambda>i. array i + 1 / 2 * (alpha i)\<^sup>2 * (P ''C10'' + P ''C12'' * cos (2 * (phi i - P ''phi12''))))"
proof -
  from full have g: "\<forall>k\<in>set [''C10'', ''C12'', ''phi12'']. d k = Some (P k)"
    by (simp add: polar_symbols_def)
  from getitems_Inr[OF g] obtain p where p: "getitems d [''C10'', ''C12'', ''phi12''] = Inr p"
    and pP: "\<forall>k\<in>set [''C10'', ''C12'', ''phi12'']. p k = P k" by blast
  show ?thesis
    unfolding polar_chi_order1_def using pP
    by (auto simp: p bind_err_def any_nonzero_def simp del: getitems.simps)
qed

lemma polar_chi_order2_full:
  assumes full: "\<forall>k\<in>set polar_symbols. d k = Some (P k)"
  shows "polar_chi_order2 d alpha phi array =
           Inr (\<lambda>i. array i + 1 / 3 * (alpha i)\<^sup>2 * alpha i * (P ''C21'' * cos (phi i - P ''phi21'') + P ''C23'' * cos (3 * (phi i - P ''phi23''))))"
proof -
  from full have g: "\<forall>k\<in>set [''C21'', ''phi21'', ''C23'', ''phi23'']. d k = Some (P k)"
    by (simp add: polar_symbols_def)
  from getitems_Inr[OF g] obtain p where p: "getitems d [''C21'', ''phi21'', ''C23'', ''phi23''] = Inr p"
    and pP: "\<forall>k\<in>set [''C21'', ''phi21'', ''C23'', ''phi23'']. p k = P k" by blast
  show ?thesis
    unfolding polar_chi_order2_def using pP
    by (auto simp: p bind_err_def any_nonzero_def simp del: getitems.simps)
qed

lemma polar_chi_order3_full:
  assumes full: "\<forall>k\<in>set polar_symbols. d k = Some (P k)"
  shows "polar_chi_order3 d alpha phi array =
           Inr (\<lambda>i. array i + 1 / 4 * ((alpha i)\<^sup>2)\<^sup>2 * (P ''C30'' + P ''C32'' * cos (2 * (phi i - P ''phi32'')) + P ''C34'' * cos (4 * (phi i - P ''phi34''))))"
proof -
  from full have g: "\<forall>k\<in>set [''C30'', ''C32'', ''phi32'', ''C34'', ''phi34'']. d k = Some (P k)"
    by (simp add: polar_symbols_def)
  from getitems_Inr[OF g] obtain p where p: "getitems d [''C30'', ''C32'', ''phi32'', ''C34'', ''phi34''] = Inr p"
    and pP: "\<forall>k\<in>set [''C30'', ''C32'', ''phi32'', ''C34'', ''phi34'']. p k = P k" by blast
  show ?thesis
    unfolding polar_chi_order3_def using pP
    by (auto simp: p bind_err_def any_nonzero_def simp del: getitems.simps)
qed

lemma polar_chi_order4_full:
  assumes full: "\<forall>k\<in>set polar_symbols. d k = Some (P k)"
  shows "polar_chi_order4 d alpha phi array =
           Inr (\<lambda>i. array i + 1 / 5 * ((alpha i)\<^sup>2)\<^sup>2 * alpha i * (P ''C41'' * cos (phi i - P ''phi41'') + P ''C43'' * cos (3 * (phi i - P ''phi43'')) + P ''C45'' * cos (5 * (phi i - P ''phi45''))))"
proof -
  from full have g: "\<forall>k\<in>set [''C41'', ''phi41'', ''C43'', ''phi43'', ''C45'', ''phi41'']. d k = Some (P k)"
    by (simp add: polar_symbols_def)
  from getitems_Inr[OF g] obtain p where p: "getitems d [''C41'', ''phi41'', ''C43'', ''phi43'', ''C45'', ''phi41''] = Inr p"
    and pP: "\<forall>k\<in>set [''C41'', ''phi41'', ''C43'', ''phi43'', ''C45'', ''phi41'']. p k = P k" by blast
  from full have g2: "\<forall>k\<in>set [''C41'', ''phi41'', ''C43'', ''phi43'', ''C45'', ''phi45'']. d k = Some (P k)"
    by (simp add: polar_symbols_def)
  from getitems_Inr[OF g2] obtain q where q: "getitems d [''C41'', ''phi41'', ''C43'', ''phi43'', ''C45'', ''phi45''] = Inr q"
    and qP: "\<forall>k\<in>set [''C41'', ''phi41'', ''C43'', ''phi43'', ''C45'', ''phi45'']. q k = P k" by blast
  show ?thesis
    unfolding polar_chi_order4_def using pP qP
    by (auto simp: p q bind_err_def any_nonzero_def simp del: getitems.simps)
qed

lemma polar_chi_order5_full:
  assumes full: "\<forall>k\<in>set polar_symbols. d k = Some (P k)"
  shows "polar_chi_order5 d alpha phi array =
           Inr (\<lambda>i. array i + 1 / 6 * ((alpha i)\<^sup>2) ^ 3 * (P ''C50'' + P ''C52'' * cos (2 * (phi i - P ''phi52'')) + P ''C54'' * cos (4 * (phi i - P ''phi54'')) + P ''C56'' * cos (6 * (phi i - P ''phi56''))))"
proof -
  from full have g: "\<forall>k\<in>set [''C50'', ''C52'', ''phi52'', ''C54'', ''phi54'', ''C56'', ''phi56'']. d k = Some (P k)"
    by (simp add: polar_symbols_def)
  from getitems_Inr[OF g] obtain p where p: "getitems d [''C50'', ''C52'', ''phi52'', ''C54'', ''phi54'', ''C56'', ''phi56''] = Inr p"
    and pP: "\<forall>k\<in>set [''C50'', ''C52'', ''phi52'', ''C54'', ''phi54'', ''C56'', ''phi56'']. p k = P k" by blast
  show ?thesis
    unfolding polar_chi_order5_def using pP
    by (auto simp: p bind_err_def any_nonzero_def simp del: getitems.simps)
qed

lemma power_shapes:
  fixes a :: real
  shows "a ^ 3 = a\<^sup>2 * a" "a ^ 4 = (a\<^sup>2)\<^sup>2" "a ^ 5 = (a\<^sup>2)\<^sup>2 * a" "a ^ 6 = (a\<^sup>2) ^ 3"
  by (simp_all add: eval_nat_numeral)

lemma calculate_polar_chi_full:
  assumes full: "\<forall>k\<in>set polar_symbols. d k = Some (P k)" and w: "w \<noteq> 0"
  shows "calculate_polar_chi alpha phi w d = Inr (\<lambda>i. polar_chi_naive P w (alpha i) (phi i))"
  unfolding calculate_polar_chi_def polar_chi_order1_full[OF full] polar_chi_order2_full[OF full]
    polar_chi_order3_full[OF full] polar_chi_order4_full[OF full] polar_chi_order5_full[OF full]
    polar_chi_naive_unfold power_shapes
  using w by (simp add: bind_err_def)

section \<open>Setting parameters\<close>

lemma alias_target: "map_of polar_aliases a = Some t \<Longrightarrow> t \<in> set polar_symbols"
  by (auto simp: polar_aliases_def polar_symbols_def split: if_splits)

lemma alias_some: "a \<in> set (map fst polar_aliases) \<Longrightarrow> \<exists>t. map_of polar_aliases a = Some t"
  by (auto simp: polar_aliases_def)

lemma canonical_symbol: "recognized k \<Longrightarrow> canonical k \<in> set polar_symbols"
  unfolding recognized_def canonical_def
  by (auto simp: polar_aliases_def polar_symbols_def)

lemma step_recognized:
  assumes "dom d = set polar_symbols" "recognized k"
  shows "set_parameters_items ((k, v) # items) d = set_parameters_items items (apply_entry (k, v) d)"
proof (cases "k \<in> set polar_symbols")
  case True
  then have "d k \<noteq> None" using assms(1) by auto
  moreover have "canonical k = k" "k \<noteq> ''defocus''" using True
    by (auto simp: canonical_def polar_aliases_def polar_symbols_def)
  ultimately show ?thesis by (simp add: apply_entry_def)
next
  case False
  then have a: "k \<in> set (map fst polar_aliases)" using assms(2) by (simp add: recognized_def)
  from False have "d k = None" using assms(1) by auto
  moreover obtain t where t: "map_of polar_aliases k = Some t" using alias_some[OF a] by blast
  ultimately show ?thesis using a
    by (cases "k = ''defocus''") (auto simp: apply_entry_def canonical_def)
qed

lemma apply_entry_dom:
  "dom d = set polar_symbols \<Longrightarrow> recognized (fst e) \<Longrightarrow> dom (apply_entry e d) = set polar_symbols"
  using canonical_symbol[of "fst e"] by (auto simp: apply_entry_def)

lemma step_unrecognized:
  assumes "dom d = set polar_symbols" "\<not> recognized k"
  shows "set_parameters_items ((k, v) # items) d = (Some (ValueError (k @ '' not a recognized parameter'')), d)"
proof -
  have "d k = None" using assms by (auto simp: recognized_def)
  moreover have "k \<noteq> ''defocus''" "k \<notin> set (map fst polar_aliases)"
    using assms(2) by (auto simp: recognized_def polar_aliases_def)
  ultimately show ?thesis by simp
qed

lemma items_prefix:
  "dom d = set polar_symbols \<Longrightarrow> list_all (\<lambda>e. recognized (fst e)) pre \<Longrightarrow>
   set_parameters_items (pre @ rest) d = set_parameters_items rest (fold apply_entry pre d)
   \<and> dom (fold apply_entry pre d) = set polar_symbols"
proof (induction pre arbitrary: d)
  case Nil
  then show ?case by simp
next
  case (Cons e pre)
  obtain k v where e: "e = (k, v)" by (cases e)
  have r: "recognized k" using Cons.prems(2) e by simp
  have d': "dom (apply_entry e d) = set polar_symbols"
    using apply_entry_dom[OF Cons.prems(1)] r e by simp
  have "list_all (\<lambda>e. recognized (fst e)) pre" using Cons.prems(2) by simp
  from Cons.IH[OF d' this] show ?case
    using step_recognized[OF Cons.prems(1) r] e by simp
qed

lemma zero_parameters_dom:
  "dom (map_of (zip polar_symbols (replicate (length polar_symbols) (0::real)))) = set polar_symbols"
  by (simp add: dom_map_of_zip)

lemma init_default:
  "init Infinity 0 0 0 0 w [] = Inr (default_ctf w)"
  by (simp add: init_def set_parameters_def register_def)

lemma items_fail:
  "dom d = set polar_symbols \<Longrightarrow> list_ex (\<lambda>e. \<not> recognized (fst e)) items \<Longrightarrow>
   \<exists>k' d'. set_parameters_items items d = (Some (ValueError (k' @ '' not a recognized parameter'')), d')
     \<and> \<not> recognized k' \<and> dom d' = set polar_symbols"
proof (induction items arbitrary: d)
  case Nil
  then show ?case by simp
next
  case (Cons e items)
  obtain k v where e: "e = (k, v)" by (cases e)
  show ?case
  proof (cases "recognized k")
    case True
    have d': "dom (apply_entry (k, v) d) = set polar_symbols"
      using apply_entry_dom[OF Cons.prems(1), of "(k, v)"] True by simp
    have "list_ex (\<lambda>e. \<not> recognized (fst e)) items" using Cons.prems(2) True e by simp
    from Cons.IH[OF d' this] show ?thesis
      using step_recognized[OF Cons.prems(1) True] e by simp
  next
    case False
    then show ?thesis
      using step_unrecognized[OF Cons.prems(1) False] Cons.prems(1) e by blast
  qed
qed

text \<open>
  C4: if some key of the mapping passed to \<^verbatim>\<open>set_parameters\<close> is neither one of the
  25 canonical symbols nor an alias, the call fails with the error for an unrecognized
  parameter, and the store has no entry for that key before and after the call (the
  call adds no key at all). The store is the one of a CTF, whose keys are the 25
  symbols.
\<close>

theorem set_parameters_unrecognized:
  assumes "dom (self_parameters s) = set polar_symbols"
    and "(k, v) \<in> set parameters"
    and "\<not> recognized k"
  shows "(\<exists>k'. \<not> recognized k' \<and>
           fst (set_parameters parameters s) = Inl (ValueError (k' @ '' not a recognized parameter'')))
    \<and> self_parameters (snd (set_parameters parameters s)) k = self_parameters s k
    \<and> dom (self_parameters (snd (set_parameters parameters s))) = dom (self_parameters s)"
proof -
  have "list_ex (\<lambda>e. \<not> recognized (fst e)) parameters"
    using assms(2,3) by (force simp: list_ex_iff)
  from items_fail[OF assms(1) this] obtain k' d' where
    r: "set_parameters_items parameters (self_parameters s) =
          (Some (ValueError (k' @ '' not a recognized parameter'')), d')"
    and k': "\<not> recognized k'" and d': "dom d' = set polar_symbols" by blast
  have fails: "\<exists>k'. \<not> recognized k' \<and>
           fst (set_parameters parameters s) = Inl (ValueError (k' @ '' not a recognized parameter''))"
    using r k' by (auto simp: set_parameters_def)
  have dom: "dom (self_parameters (snd (set_parameters parameters s))) = dom (self_parameters s)"
    using r d' assms(1) by (simp add: set_parameters_def)
  have "k \<notin> set polar_symbols" using assms(3) by (simp add: recognized_def)
  then have "self_parameters s k = None" "self_parameters (snd (set_parameters parameters s)) k = None"
    using assms(1) dom by blast+
  then have "self_parameters (snd (set_parameters parameters s)) k = self_parameters s k" by simp
  with fails dom show ?thesis by blast
qed

theorem set_parameters_unrecognized_witness:
  "(\<exists>k'. \<not> recognized k' \<and>
      fst (set_parameters [(''C30'', 1), (''unknown_xyz'', 1)] (default_ctf None :: (unit, unit) ctf))
      = Inl (ValueError (k' @ '' not a recognized parameter'')))
   \<and> self_parameters
        (snd (set_parameters [(''C30'', 1), (''unknown_xyz'', 1)] (default_ctf None :: (unit, unit) ctf)))
        ''unknown_xyz'' = None"
  using set_parameters_unrecognized[of "default_ctf None :: (unit, unit) ctf"
      "''unknown_xyz''" 1 "[(''C30'', 1), (''unknown_xyz'', 1)]"]
    zero_parameters_dom
  by (simp add: recognized_def polar_symbols_def polar_aliases_def)

text \<open>
  C10: when the first unrecognized name of the entries passed to \<^verbatim>\<open>set_parameters\<close>
  stands after the entries \<open>pre\<close>, the call raises the error for that name, and the
  store is then the one in which exactly the entries of \<open>pre\<close> have been applied, in
  order and with the sign flip of \<^verbatim>\<open>defocus\<close>: no later entry is applied, and the
  earlier ones are not undone.
\<close>

theorem set_parameters_not_atomic:
  assumes "dom (self_parameters s) = set polar_symbols"
    and "list_all (\<lambda>e. recognized (fst e)) pre"
    and "\<not> recognized k"
  shows "set_parameters (pre @ (k, v) # post) s =
           (Inl (ValueError (k @ '' not a recognized parameter'')),
            s\<lparr>self_parameters := fold apply_entry pre (self_parameters s)\<rparr>)"
  using items_prefix[OF assms(1,2), of "(k, v) # post"]
    step_unrecognized[OF _ assms(3), of "fold apply_entry pre (self_parameters s)" v post]
  by (simp add: set_parameters_def)

theorem set_parameters_not_atomic_witness:
  "set_parameters [(''C30'', 1), (''defocus'', 2), (''bogus'', 3), (''C12'', 4)]
     (default_ctf None :: (unit, unit) ctf) =
   (Inl (ValueError ''bogus not a recognized parameter''),
    (default_ctf None)\<lparr>self_parameters :=
       (map_of (zip polar_symbols (replicate (length polar_symbols) 0)))
         (''C30'' \<mapsto> 1, ''C10'' \<mapsto> - 2)\<rparr>)"
  using set_parameters_not_atomic[of "default_ctf None :: (unit, unit) ctf"
      "[(''C30'', 1), (''defocus'', 2)]" "''bogus''" 3 "[(''C12'', 4)]"]
  by (simp add: zero_parameters_dom recognized_def polar_symbols_def apply_entry_def canonical_def
      polar_aliases_def)

section \<open>The aperture\<close>

text \<open>
  C8: with \<^verbatim>\<open>rolloff = 0\<close> the aperture is 1 at every element where \<open>alpha < c\<close> and
  0 at every element where \<open>alpha \<ge> c\<close>; with an infinite cutoff it is the array of
  ones.
\<close>

theorem aperture_hard_edge:
  "calculate_aperture alpha (Finite c) 0 = (\<lambda>i. if alpha i < c then 1 else 0) \<and>
   calculate_aperture alpha Infinity 0 = (\<lambda>i. 1)"
  by (simp add: calculate_aperture_def)

section \<open>The phase error: skipping orders and the symmetric terms\<close>

text \<open>
  C7: for every \<open>alpha\<close>, \<open>phi\<close>, nonzero wavelength and mapping that holds all 25
  coefficients, \<^verbatim>\<open>calculate_polar_chi\<close>, which skips an order whose tested
  coefficients are all zero, returns the expansion that computes all five orders:
  \<open>2 pi / wavelength\<close> times the sum over the orders \<open>n\<close> of
  \<open>1 / (n + 1) * alpha ^ (n + 1)\<close> times the sum over the symmetries \<open>m\<close> of
  \<open>C n m * cos (m * (phi - phi n m))\<close>.
\<close>

theorem polar_chi_zero_skip:
  assumes "\<forall>k\<in>set polar_symbols. parameters k = Some (P k)" and "wavelength \<noteq> 0"
  shows "calculate_polar_chi alpha phi wavelength parameters =
           Inr (\<lambda>i. polar_chi_naive P wavelength (alpha i) (phi i))"
  using assms by (rule calculate_polar_chi_full)

theorem polar_chi_zero_skip_witness:
  "calculate_polar_chi (\<lambda>i::unit. 1) (\<lambda>i. 0) 1
     ((map_of (zip polar_symbols (replicate (length polar_symbols) 0)))(''C30'' \<mapsto> 2)) =
   Inr (\<lambda>i. pi)"
  using polar_chi_zero_skip[of "(map_of (zip polar_symbols (replicate (length polar_symbols) 0)))(''C30'' \<mapsto> 2)"
      "(\<lambda>k. 0)(''C30'' := 2)" 1 "\<lambda>i::unit. 1" "\<lambda>i. 0"]
  by (simp add: polar_symbols_def polar_chi_naive_unfold)

lemma others_zero:
  assumes "\<forall>k\<in>set polar_symbols - {''C10'', ''C30'', ''C50''}. d k = Some 0"
  shows "d ''C12'' = Some 0" "d ''phi12'' = Some 0"
    "d ''C21'' = Some 0" "d ''phi21'' = Some 0" "d ''C23'' = Some 0" "d ''phi23'' = Some 0"
    "d ''C32'' = Some 0" "d ''phi32'' = Some 0" "d ''C34'' = Some 0" "d ''phi34'' = Some 0"
    "d ''C41'' = Some 0" "d ''phi41'' = Some 0" "d ''C43'' = Some 0" "d ''phi43'' = Some 0"
    "d ''C45'' = Some 0" "d ''phi45'' = Some 0"
    "d ''C52'' = Some 0" "d ''phi52'' = Some 0" "d ''C54'' = Some 0" "d ''phi54'' = Some 0"
    "d ''C56'' = Some 0" "d ''phi56'' = Some 0"
  using assms by (simp_all add: polar_symbols_def)

lemma order2_zero:
  assumes "\<forall>k\<in>set polar_symbols - {''C10'', ''C30'', ''C50''}. d k = Some 0"
  shows "polar_chi_order2 d alpha phi array = Inr array"
  by (simp add: polar_chi_order2_def bind_err_def any_nonzero_def others_zero[OF assms])

lemma order4_zero:
  assumes "\<forall>k\<in>set polar_symbols - {''C10'', ''C30'', ''C50''}. d k = Some 0"
  shows "polar_chi_order4 d alpha phi array = Inr array"
  by (simp add: polar_chi_order4_def bind_err_def any_nonzero_def others_zero[OF assms])

lemma order1_sym:
  assumes "\<forall>k\<in>set polar_symbols - {''C10'', ''C30'', ''C50''}. d k = Some 0"
  shows "polar_chi_order1 d alpha phi array =
    (case d ''C10'' of None \<Rightarrow> Inl (KeyError ''C10'')
     | Some c \<Rightarrow> Inr (\<lambda>i. array i + 1 / 2 * (alpha i)\<^sup>2 * c))"
  by (auto simp: polar_chi_order1_def bind_err_def any_nonzero_def others_zero[OF assms]
      split: option.splits)

lemma order3_sym:
  assumes "\<forall>k\<in>set polar_symbols - {''C10'', ''C30'', ''C50''}. d k = Some 0"
  shows "polar_chi_order3 d alpha phi array =
    (case d ''C30'' of None \<Rightarrow> Inl (KeyError ''C30'')
     | Some c \<Rightarrow> Inr (\<lambda>i. array i + 1 / 4 * ((alpha i)\<^sup>2)\<^sup>2 * c))"
  by (auto simp: polar_chi_order3_def bind_err_def any_nonzero_def others_zero[OF assms]
      split: option.splits)

lemma order5_sym:
  assumes "\<forall>k\<in>set polar_symbols - {''C10'', ''C30'', ''C50''}. d k = Some 0"
  shows "polar_chi_order5 d alpha phi array =
    (case d ''C50'' of None \<Rightarrow> Inl (KeyError ''C50'')
     | Some c \<Rightarrow> Inr (\<lambda>i. array i + 1 / 6 * ((alpha i)\<^sup>2) ^ 3 * c))"
  by (auto simp: polar_chi_order5_def bind_err_def any_nonzero_def others_zero[OF assms]
      split: option.splits)

text \<open>
  C9: for every mapping in which every coefficient other than \<^verbatim>\<open>C10\<close>, \<^verbatim>\<open>C30\<close>
  and \<^verbatim>\<open>C50\<close> is zero, and every \<open>alpha\<close>, \<open>phi\<close> and nonzero wavelength,
  \<^verbatim>\<open>calculate_polar_chi\<close> and \<^verbatim>\<open>calculate_symmetric_chi\<close> return the same result
  (the same array, or the same \<^verbatim>\<open>KeyError\<close> when one of the three is missing).
\<close>

theorem polar_chi_symmetric:
  assumes "\<forall>k\<in>set polar_symbols - {''C10'', ''C30'', ''C50''}. parameters k = Some 0"
    and "wavelength \<noteq> 0"
  shows "calculate_polar_chi alpha phi wavelength parameters =
           calculate_symmetric_chi alpha wavelength parameters"
  unfolding calculate_polar_chi_def order1_sym[OF assms(1)] order2_zero[OF assms(1)]
    order3_sym[OF assms(1)] order4_zero[OF assms(1)] order5_sym[OF assms(1)]
  using assms(2)
  by (auto simp: bind_err_def calculate_symmetric_chi_def split: option.splits)

theorem polar_chi_symmetric_witness:
  "calculate_polar_chi (\<lambda>i::unit. 1) (\<lambda>i. 5) 1
     ((map_of (zip polar_symbols (replicate (length polar_symbols) 0)))
        (''C10'' \<mapsto> 1, ''C30'' \<mapsto> 2, ''C50'' \<mapsto> 3)) = Inr (\<lambda>i. 3 * pi)
   \<and> calculate_symmetric_chi (\<lambda>i::unit. 1) 1
     ((map_of (zip polar_symbols (replicate (length polar_symbols) 0)))
        (''C10'' \<mapsto> 1, ''C30'' \<mapsto> 2, ''C50'' \<mapsto> 3)) = Inr (\<lambda>i. 3 * pi)"
proof -
  let ?d = "(map_of (zip polar_symbols (replicate (length polar_symbols) 0)))
        (''C10'' \<mapsto> 1, ''C30'' \<mapsto> 2, ''C50'' \<mapsto> (3::real))"
  have h: "\<forall>k\<in>set polar_symbols - {''C10'', ''C30'', ''C50''}. ?d k = Some 0"
    by (auto simp: polar_symbols_def)
  have w: "(1::real) \<noteq> 0" by simp
  have "calculate_symmetric_chi (\<lambda>i::unit. 1) 1 ?d = Inr (\<lambda>i. 3 * pi)"
    by (simp add: calculate_symmetric_chi_def bind_err_def)
  then show ?thesis
    using polar_chi_symmetric[of ?d 1 "\<lambda>i::unit. 1" "\<lambda>i. 5", OF h w] by simp
qed

section \<open>The CTF without aberrations\<close>

lemma evaluate_zero:
  assumes z: "\<forall>k\<in>set polar_symbols. self_parameters s k = Some 0"
    and "self_semiangle_cutoff s = Infinity" "self_focal_spread s = 0"
    "self_angular_spread s = 0" "self_gaussian_spread s = 0"
    and "self_wavelength s = Some w" "w \<noteq> 0"
  shows "evaluate alpha phi s = Inr (\<lambda>i. 1)"
proof -
  have "calculate_polar_chi alpha phi w (self_parameters s) = Inr (\<lambda>i. 0)"
    using calculate_polar_chi_full[of "self_parameters s" "\<lambda>k. 0" w alpha phi] z assms(7)
    by (simp add: polar_chi_naive_unfold)
  then have "evaluate_aberrations alpha phi s = Inr (\<lambda>i. 1)"
    using assms(6)
    by (simp add: evaluate_aberrations_def wavelength_of_def bind_err_def
        calculate_polar_aberrations_def complex_exponential_def)
  then show ?thesis using assms(2-5) by (simp add: evaluate_def bind_err_def)
qed

lemma zero_parameters_lookup:
  "\<forall>k\<in>set polar_symbols. map_of (zip polar_symbols (replicate (length polar_symbols) (0::real))) k = Some 0"
  by (simp add: polar_symbols_def)

text \<open>
  C5, as amended: with all 25 coefficients equal to 0, the optical settings at their
  defaults and a wavelength that is not zero, \<^verbatim>\<open>evaluate\<close> returns the array that
  is \<open>1 + 0i\<close> at every element, for every \<open>alpha\<close> and \<open>phi\<close>.
\<close>

theorem zero_parameter_ctf:
  assumes "\<forall>k\<in>set polar_symbols. self_parameters s k = Some 0"
    and "self_semiangle_cutoff s = Infinity" "self_rolloff s = 0" "self_focal_spread s = 0"
    "self_angular_spread s = 0" "self_gaussian_spread s = 0"
    and "self_wavelength s = Some w" "w \<noteq> 0"
  shows "evaluate alpha phi s = Inr (\<lambda>i. 1)"
  using assms by (intro evaluate_zero) auto

theorem zero_parameter_ctf_witness:
  "evaluate (\<lambda>i::nat. real i) (\<lambda>i. 1) (default_ctf (Some 2) :: (unit, unit) ctf) = Inr (\<lambda>i. 1)"
  using zero_parameter_ctf[of "default_ctf (Some 2) :: (unit, unit) ctf" 2 "\<lambda>i::nat. real i" "\<lambda>i. 1"]
    zero_parameters_lookup
  by simp

lemma order_array_zero:
  assumes z: "\<forall>k\<in>set polar_symbols. d k = Some 0"
  shows "polar_chi_order1 d alpha phi (\<lambda>i. 0) = Inr (\<lambda>i. 0)"
    "polar_chi_order2 d alpha phi (\<lambda>i. 0) = Inr (\<lambda>i. 0)"
    "polar_chi_order3 d alpha phi (\<lambda>i. 0) = Inr (\<lambda>i. 0)"
    "polar_chi_order4 d alpha phi (\<lambda>i. 0) = Inr (\<lambda>i. 0)"
    "polar_chi_order5 d alpha phi (\<lambda>i. 0) = Inr (\<lambda>i. 0)"
  using polar_chi_order1_full[OF z] polar_chi_order2_full[OF z] polar_chi_order3_full[OF z]
    polar_chi_order4_full[OF z] polar_chi_order5_full[OF z]
  by simp_all

text \<open>
  C5 as stated, for every wavelength, fails at the wavelength 0: the last statement of
  \<^verbatim>\<open>calculate_polar_chi\<close> divides by it, and no array of ones is returned.
\<close>

theorem zero_wavelength_counterexample:
  "evaluate (\<lambda>i::unit. 1) (\<lambda>i. 0) (default_ctf (Some 0) :: (unit, unit) ctf)
     = Inl ZeroDivisionError"
  by (simp add: evaluate_def evaluate_aberrations_def wavelength_of_def bind_err_def
      calculate_polar_aberrations_def calculate_polar_chi_def
      order_array_zero[OF zero_parameters_lookup])

section \<open>The spatial envelope\<close>

text \<open>
  The array \<^verbatim>\<open>dchi_dk\<close> is the derivative of the expansion with respect to
  \<open>alpha\<close>; the array \<^verbatim>\<open>dchi_dphi\<close> is its derivative with respect to \<open>phi\<close>
  divided by \<open>alpha\<close>, the azimuthal component of the gradient.
\<close>

lemma dchi_dk_derivative:
  "((\<lambda>x. polar_chi_naive P w x f) has_real_derivative dchi_dk P w a f) (at a)"
  unfolding polar_chi_naive_unfold dchi_dk_def
  by (rule DERIV_cmult) (auto intro!: derivative_eq_intros simp: algebra_simps)

lemma five_orders_derivative:
  fixes c a :: real
  assumes "(h1 has_real_derivative - s1) (at f)" "(h2 has_real_derivative - s2) (at f)"
    "(h3 has_real_derivative - s3) (at f)" "(h4 has_real_derivative - s4) (at f)"
    "(h5 has_real_derivative - s5) (at f)"
  shows "((\<lambda>x. c * (1 / 2 * a\<^sup>2 * h1 x + 1 / 3 * a ^ 3 * h2 x + 1 / 4 * a ^ 4 * h3 x +
                      1 / 5 * a ^ 5 * h4 x + 1 / 6 * a ^ 6 * h5 x))
          has_real_derivative
          a * (- c * (1 / 2 * s1 * a + 1 / 3 * s2 * a\<^sup>2 + 1 / 4 * s3 * a ^ 3 +
                      1 / 5 * s4 * a ^ 4 + 1 / 6 * s5 * a ^ 5))) (at f)"
proof -
  have "((\<lambda>x. c * (1 / 2 * a\<^sup>2 * h1 x + 1 / 3 * a ^ 3 * h2 x + 1 / 4 * a ^ 4 * h3 x +
                      1 / 5 * a ^ 5 * h4 x + 1 / 6 * a ^ 6 * h5 x))
          has_real_derivative
          c * (1 / 2 * a\<^sup>2 * (- s1) + 1 / 3 * a ^ 3 * (- s2) + 1 / 4 * a ^ 4 * (- s3) +
               1 / 5 * a ^ 5 * (- s4) + 1 / 6 * a ^ 6 * (- s5))) (at f)"
    by (intro DERIV_cmult DERIV_add assms)
  moreover have "c * (1 / 2 * a\<^sup>2 * (- s1) + 1 / 3 * a ^ 3 * (- s2) + 1 / 4 * a ^ 4 * (- s3) +
               1 / 5 * a ^ 5 * (- s4) + 1 / 6 * a ^ 6 * (- s5)) =
      a * (- c * (1 / 2 * s1 * a + 1 / 3 * s2 * a\<^sup>2 + 1 / 4 * s3 * a ^ 3 +
                      1 / 5 * s4 * a ^ 4 + 1 / 6 * s5 * a ^ 5))"
    by (simp add: algebra_simps eval_nat_numeral)
  ultimately show ?thesis by simp
qed

lemma dchi_dphi_derivative:
  "((\<lambda>x. polar_chi_naive P w a x) has_real_derivative a * dchi_dphi P w a f) (at f)"
proof -
  have h1: "((\<lambda>x. P ''C10'' + P ''C12'' * cos (2 * (x - P ''phi12''))) has_real_derivative
      - (2 * P ''C12'' * sin (2 * (f - P ''phi12'')))) (at f)"
    by (auto intro!: derivative_eq_intros)
  have h2: "((\<lambda>x. P ''C21'' * cos (x - P ''phi21'') + P ''C23'' * cos (3 * (x - P ''phi23'')))
      has_real_derivative
      - (3 * P ''C23'' * sin (3 * (f - P ''phi23'')) + 1 * P ''C21'' * sin (1 * (f - P ''phi21''))))
      (at f)"
    by (auto intro!: derivative_eq_intros)
  have h3: "((\<lambda>x. P ''C30'' + P ''C32'' * cos (2 * (x - P ''phi32'')) +
                   P ''C34'' * cos (4 * (x - P ''phi34'')))
      has_real_derivative
      - (4 * P ''C34'' * sin (4 * (f - P ''phi34'')) + 2 * P ''C32'' * sin (2 * (f - P ''phi32''))))
      (at f)"
    by (auto intro!: derivative_eq_intros)
  have h4: "((\<lambda>x. P ''C41'' * cos (x - P ''phi41'') + P ''C43'' * cos (3 * (x - P ''phi43'')) +
                   P ''C45'' * cos (5 * (x - P ''phi45'')))
      has_real_derivative
      - (5 * P ''C45'' * sin (5 * (f - P ''phi45'')) + 3 * P ''C43'' * sin (3 * (f - P ''phi43'')) +
         1 * P ''C41'' * sin (1 * (f - P ''phi41'')))) (at f)"
    by (auto intro!: derivative_eq_intros)
  have h5: "((\<lambda>x. P ''C50'' + P ''C52'' * cos (2 * (x - P ''phi52'')) +
                   P ''C54'' * cos (4 * (x - P ''phi54'')) +
                   P ''C56'' * cos (6 * (x - P ''phi56'')))
      has_real_derivative
      - (6 * P ''C56'' * sin (6 * (f - P ''phi56'')) + 4 * P ''C54'' * sin (4 * (f - P ''phi54'')) +
         2 * P ''C52'' * sin (2 * (f - P ''phi52'')))) (at f)"
    by (auto intro!: derivative_eq_intros)
  have m: "- 2 * pi / w = - (2 * pi / w)" by simp
  show ?thesis
    unfolding polar_chi_naive_unfold dchi_dphi_def m
    by (rule five_orders_derivative[OF h1 h2 h3 h4 h5])
qed

lemma spatial_envelope_full:
  assumes full: "\<forall>k\<in>set polar_symbols. d k = Some (P k)" and w: "w \<noteq> 0"
  shows "calculate_spatial_envelope alpha phi w sigma d =
     Inr (\<lambda>i. exp (- sgn sigma * (sigma / 2)\<^sup>2 *
                     ((dchi_dk P w (alpha i) (phi i))\<^sup>2 + (dchi_dphi P w (alpha i) (phi i))\<^sup>2)))"
proof -
  from full have g: "\<forall>k\<in>set spatial_symbols. d k = Some (P k)"
    by (simp add: polar_symbols_def spatial_symbols_def)
  from getitems_Inr[OF g] obtain p where p: "getitems d spatial_symbols = Inr p"
    and pP: "\<forall>k\<in>set spatial_symbols. p k = P k" by blast
  from pP have "dchi_dk p = dchi_dk P" "dchi_dphi p = dchi_dphi P"
    by (simp_all add: fun_eq_iff dchi_dk_def dchi_dphi_def spatial_symbols_def)
  then show ?thesis using w by (simp add: calculate_spatial_envelope_def p bind_err_def)
qed

lemma negative_spread_amplifies:
  fixes sigma g :: real
  assumes "sigma < 0" "0 \<le> g"
  shows "0 \<le> - sgn sigma * (sigma / 2)\<^sup>2 * g" "1 \<le> exp (- sgn sigma * (sigma / 2)\<^sup>2 * g)"
proof -
  from assms(1) have "- sgn sigma * (sigma / 2)\<^sup>2 * g = (sigma / 2)\<^sup>2 * g" by simp
  moreover have "0 \<le> (sigma / 2)\<^sup>2 * g" using assms(2) by simp
  ultimately show "0 \<le> - sgn sigma * (sigma / 2)\<^sup>2 * g" by simp
  then show "1 \<le> exp (- sgn sigma * (sigma / 2)\<^sup>2 * g)" by simp
qed

text \<open>
  C6, as amended: for every \<open>alpha\<close>, \<open>phi\<close>, angular spread, nonzero wavelength and
  mapping that holds all 25 coefficients, \<^verbatim>\<open>calculate_spatial_envelope\<close> returns
  \<open>exp (- sgn spread * (spread / 2)\<^sup>2 * (dchi_dk\<^sup>2 + dchi_dphi\<^sup>2))\<close>, where
  \<open>dchi_dk\<close> is the derivative of the 5th-order expansion with respect to \<open>alpha\<close>
  and \<open>alpha * dchi_dphi\<close> is its derivative with respect to \<open>phi\<close>; for a negative
  spread the exponent is not negative and every returned element is at least 1.
\<close>

theorem spatial_envelope_closed_form:
  assumes "\<forall>k\<in>set polar_symbols. parameters k = Some (P k)" and "wavelength \<noteq> 0"
  shows "calculate_spatial_envelope alpha phi wavelength angular_spread parameters =
     Inr (\<lambda>i. exp (- sgn angular_spread * (angular_spread / 2)\<^sup>2 *
                     ((dchi_dk P wavelength (alpha i) (phi i))\<^sup>2 +
                      (dchi_dphi P wavelength (alpha i) (phi i))\<^sup>2)))
   \<and> (\<forall>a f. ((\<lambda>x. polar_chi_naive P wavelength x f) has_real_derivative
                dchi_dk P wavelength a f) (at a))
   \<and> (\<forall>a f. ((\<lambda>x. polar_chi_naive P wavelength a x) has_real_derivative
                a * dchi_dphi P wavelength a f) (at f))
   \<and> (angular_spread < 0 \<longrightarrow>
        (\<forall>i. 0 \<le> - sgn angular_spread * (angular_spread / 2)\<^sup>2 *
                     ((dchi_dk P wavelength (alpha i) (phi i))\<^sup>2 +
                      (dchi_dphi P wavelength (alpha i) (phi i))\<^sup>2)
            \<and> 1 \<le> exp (- sgn angular_spread * (angular_spread / 2)\<^sup>2 *
                     ((dchi_dk P wavelength (alpha i) (phi i))\<^sup>2 +
                      (dchi_dphi P wavelength (alpha i) (phi i))\<^sup>2))))"
  using spatial_envelope_full[OF assms] dchi_dk_derivative dchi_dphi_derivative
    negative_spread_amplifies
  by (simp add: add_nonneg_nonneg)

theorem spatial_envelope_closed_form_witness:
  "calculate_spatial_envelope (\<lambda>i::unit. 1) (\<lambda>i. 0) 1 (- 2)
     ((map_of (zip polar_symbols (replicate (length polar_symbols) 0)))(''C10'' \<mapsto> 1))
     = Inr (\<lambda>i. exp ((2 * pi)\<^sup>2))
   \<and> 1 \<le> exp ((2 * pi)\<^sup>2)"
  using spatial_envelope_closed_form[of
      "(map_of (zip polar_symbols (replicate (length polar_symbols) 0)))(''C10'' \<mapsto> 1)"
      "(\<lambda>k. 0)(''C10'' := 1)" 1 "\<lambda>i::unit. 1" "\<lambda>i. 0" "- 2"]
  by (simp add: polar_symbols_def dchi_dk_def dchi_dphi_def)

text \<open>
  C6 as stated fails: at the wavelength 0 the function divides by zero and returns no
  array; and \<^verbatim>\<open>dchi_dphi\<close> is not the derivative of the expansion with respect to
  \<open>phi\<close> (here at \<open>alpha = 2\<close>, where the two differ by the factor 2).
\<close>

theorem spatial_envelope_counterexample:
  "calculate_spatial_envelope (\<lambda>i::unit. 1) (\<lambda>i. 0) 0 1
     (map_of (zip polar_symbols (replicate (length polar_symbols) 0))) = Inl ZeroDivisionError
   \<and> \<not> ((\<lambda>x. polar_chi_naive ((\<lambda>k. 0)(''C12'' := 1)) 1 2 x) has_real_derivative
          dchi_dphi ((\<lambda>k. 0)(''C12'' := 1)) 1 2 (pi / 4)) (at (pi / 4))"
proof -
  let ?P = "(\<lambda>k. 0 :: real)(''C12'' := 1)"
  have v: "dchi_dphi ?P 1 2 (pi / 4) = - 4 * pi"
    by (simp add: dchi_dphi_def)
  have "\<not> ((\<lambda>x. polar_chi_naive ?P 1 2 x) has_real_derivative dchi_dphi ?P 1 2 (pi / 4))
      (at (pi / 4))"
  proof
    assume "((\<lambda>x. polar_chi_naive ?P 1 2 x) has_real_derivative dchi_dphi ?P 1 2 (pi / 4))
      (at (pi / 4))"
    from DERIV_unique[OF this dchi_dphi_derivative[of ?P 1 2 "pi / 4"]]
    show False unfolding v by simp
  qed
  then show ?thesis by (simp add: calculate_spatial_envelope_def)
qed

section \<open>The round trip between polar and Cartesian coefficients\<close>

lemma sqrt8: "sqrt 8 = 2 * sqrt 2"
proof -
  have "sqrt 8 = sqrt (4 * 2)" by simp
  also have "\<dots> = 2 * sqrt 2" by (simp only: real_sqrt_mult) simp
  finally show ?thesis .
qed

lemma K_eq: "sqrt (3 + sqrt 8) = 1 + sqrt 2"
proof -
  have "(1 + sqrt 2)\<^sup>2 = 3 + sqrt 8"
    by (simp add: power2_eq_square algebra_simps sqrt8)
  then have "sqrt (3 + sqrt 8) = sqrt ((1 + sqrt 2)\<^sup>2)" by simp
  also have "\<dots> = 1 + sqrt 2" by (simp add: add_nonneg_nonneg)
  finally show ?thesis .
qed

lemma K_factor:
  "1 / 4 * (1 + (sqrt (3 + sqrt 8))\<^sup>2)\<^sup>2 / ((sqrt (3 + sqrt 8)) ^ 3 - sqrt (3 + sqrt 8)) = 1"
proof -
  have s: "sqrt 2 * sqrt 2 = 2" by simp
  have p: "0 < sqrt 2" by simp
  have a: "(1 + (1 + sqrt 2)\<^sup>2)\<^sup>2 = 24 + 16 * sqrt 2"
    by (simp add: power2_eq_square algebra_simps s)
  have b: "(1 + sqrt 2) ^ 3 - (1 + sqrt 2) = 6 + 4 * sqrt 2"
    by (simp add: power3_eq_cube algebra_simps s)
  have "6 + 4 * sqrt 2 \<noteq> 0" using p by (simp add: add_pos_pos less_imp_neq[symmetric])
  then show ?thesis unfolding K_eq a b by (simp add: field_simps)
qed

lemma K_angle: "4 * arctan (1 / sqrt (3 + sqrt 8)) = pi / 2"
proof -
  have s: "sqrt 2 * sqrt 2 = 2" by simp
  have p: "1 < sqrt 2" by simp
  have "(sqrt 2 - 1) * (1 + sqrt 2) = 1" by (simp add: algebra_simps s)
  moreover have "0 < 1 + sqrt 2" by (simp add: add_pos_pos)
  then have "1 + sqrt 2 \<noteq> 0" by simp
  ultimately have x: "1 / (1 + sqrt 2) = sqrt 2 - 1"
    by (simp add: nonzero_divide_eq_eq)
  have lt: "\<bar>sqrt 2 - 1\<bar> < 1"
  proof -
    have "sqrt 2 < sqrt 4" by (simp only: real_sqrt_less_iff)
    then have "sqrt 2 < 2" by simp
    with p show ?thesis by simp
  qed
  have q: "2 * (sqrt 2 - 1) / (1 - (sqrt 2 - 1)\<^sup>2) = 1"
  proof -
    have d: "1 - (sqrt 2 - 1)\<^sup>2 = 2 * (sqrt 2 - 1)"
      by (simp add: power2_eq_square algebra_simps s)
    have nz: "2 * (sqrt 2 - 1) \<noteq> 0" using p by simp
    show ?thesis unfolding d using nz by (rule divide_self)
  qed
  have "2 * arctan (sqrt 2 - 1) = arctan 1"
    by (simp only: arctan_double[OF lt] q)
  then have "2 * arctan (sqrt 2 - 1) = pi / 4" by (simp add: arctan_one)
  then show ?thesis unfolding K_eq x by simp
qed

lemma magnitude:
  "sqrt ((c * cos t)\<^sup>2 + (c * sin t)\<^sup>2) = \<bar>c\<bar>"
  "sqrt ((c * sin t)\<^sup>2 + (c * cos t)\<^sup>2) = \<bar>c\<bar>"
proof -
  have "(c * cos t)\<^sup>2 + (c * sin t)\<^sup>2 = c\<^sup>2 * (cos t)\<^sup>2 + c\<^sup>2 * (sin t)\<^sup>2"
    by (simp add: power_mult_distrib)
  also have "\<dots> = c\<^sup>2 * ((cos t)\<^sup>2 + (sin t)\<^sup>2)"
    by (simp only: distrib_left)
  also have "\<dots> = c\<^sup>2" by simp
  finally have e: "(c * cos t)\<^sup>2 + (c * sin t)\<^sup>2 = c\<^sup>2" .
  show "sqrt ((c * cos t)\<^sup>2 + (c * sin t)\<^sup>2) = \<bar>c\<bar>" unfolding e by simp
  show "sqrt ((c * sin t)\<^sup>2 + (c * cos t)\<^sup>2) = \<bar>c\<bar>"
    unfolding add.commute[of "(c * sin t)\<^sup>2"] e by simp
qed

lemma cos_half_pi_minus: "cos (pi / 2 - x) = sin (x::real)"
  by (simp add: cos_diff)

lemma C34b_sin:
  "1 / 4 * (1 + (sqrt (3 + sqrt 8))\<^sup>2)\<^sup>2 / ((sqrt (3 + sqrt 8)) ^ 3 - sqrt (3 + sqrt 8)) * c *
     cos (4 * arctan (1 / sqrt (3 + sqrt 8)) - 4 * t) = c * sin (4 * t)"
  unfolding K_factor K_angle by (simp add: cos_half_pi_minus)

lemma default0_simps:
  "default0 (m(k \<mapsto> v)) k' = (if k' = k then v else default0 m k')"
  "default0 Map.empty k = 0"
  by (simp_all add: default0_def)

lemma cos_minus4: "cos (- 4 * t) = cos (4 * (t::real))"
  by simp

lemma polar2cartesian_trig:
  "polar2cartesian p =
     map_of
        [(''C10'', default0 p ''C10''),
         (''C12a'', - default0 p ''C12'' * cos (2 * default0 p ''phi12'')),
         (''C12b'', default0 p ''C12'' * sin (2 * default0 p ''phi12'')),
         (''C21a'', default0 p ''C21'' * sin (default0 p ''phi21'')),
         (''C21b'', default0 p ''C21'' * cos (default0 p ''phi21'')),
         (''C23a'', - default0 p ''C23'' * sin (3 * default0 p ''phi23'')),
         (''C23b'', default0 p ''C23'' * cos (3 * default0 p ''phi23'')),
         (''C30'', default0 p ''C30''),
         (''C32a'', - default0 p ''C32'' * cos (2 * default0 p ''phi32'')),
         (''C32b'', default0 p ''C32'' * sin (2 * default0 p ''phi32'')),
         (''C34a'', default0 p ''C34'' * cos (4 * default0 p ''phi34'')),
         (''C34b'', default0 p ''C34'' * sin (4 * default0 p ''phi34''))]"
  unfolding polar2cartesian_def Let_def C34b_sin cos_minus4 cos_half_pi_minus ..

lemma round_trip_values:
  "cartesian2polar (polar2cartesian p) ''C10'' = Some (default0 p ''C10'')"
  "cartesian2polar (polar2cartesian p) ''C12'' = Some (- \<bar>default0 p ''C12''\<bar>)"
  "cartesian2polar (polar2cartesian p) ''C21'' = Some \<bar>default0 p ''C21''\<bar>"
  "cartesian2polar (polar2cartesian p) ''C23'' = Some \<bar>default0 p ''C23''\<bar>"
  "cartesian2polar (polar2cartesian p) ''C30'' = Some (default0 p ''C30'')"
  "cartesian2polar (polar2cartesian p) ''C32'' = Some (- \<bar>default0 p ''C32''\<bar>)"
  "cartesian2polar (polar2cartesian p) ''C34'' = Some \<bar>default0 p ''C34''\<bar>"
  unfolding cartesian2polar_def polar2cartesian_trig Let_def
  by (simp_all add: default0_simps magnitude)

lemma arctan2_polar:
  "sqrt (x\<^sup>2 + y\<^sup>2) * cos (arctan2 y x) = x"
  "sqrt (x\<^sup>2 + y\<^sup>2) * sin (arctan2 y x) = y"
proof -
  define r where "r = sqrt (x\<^sup>2 + y\<^sup>2)"
  have both: "r * cos (arctan2 y x) = x \<and> r * sin (arctan2 y x) = y"
  proof (cases "x = 0")
    case True
    then have "r = \<bar>y\<bar>" by (simp add: r_def)
    then show ?thesis using True by (simp add: arctan2_def)
  next
    case False
    then have "0 < x\<^sup>2 + y\<^sup>2" by (simp add: sum_power2_gt_zero_iff)
    then have r: "0 < r" by (simp add: r_def)
    have "1 + (y / x)\<^sup>2 = (x\<^sup>2 + y\<^sup>2) / x\<^sup>2"
      using False by (simp add: field_simps)
    then have "sqrt (1 + (y / x)\<^sup>2) = r / \<bar>x\<bar>"
      by (simp add: real_sqrt_divide r_def)
    then have c: "r * cos (arctan (y / x)) = \<bar>x\<bar>"
      and s: "r * sin (arctan (y / x)) = y / x * \<bar>x\<bar>"
      using r False by (simp_all add: cos_arctan sin_arctan)
    show ?thesis
    proof (cases "0 < x")
      case True
      then show ?thesis using c s by (simp add: arctan2_def)
    next
      case neg: False
      with False have n: "x < 0" by simp
      then have "\<bar>x\<bar> = - x" by simp
      with c s False have c': "r * cos (arctan (y / x)) = - x"
        and s': "r * sin (arctan (y / x)) = - y" by simp_all
      show ?thesis using n c' s' by (simp add: arctan2_def)
    qed
  qed
  then show "sqrt (x\<^sup>2 + y\<^sup>2) * cos (arctan2 y x) = x"
    and "sqrt (x\<^sup>2 + y\<^sup>2) * sin (arctan2 y x) = y"
    by (simp_all add: r_def)
qed

lemma harmonic_minus:
  "sqrt (a\<^sup>2 + b\<^sup>2) * cos (t - arctan2 b a) = a * cos t + b * sin t"
proof -
  have "sqrt (a\<^sup>2 + b\<^sup>2) * cos (t - arctan2 b a) =
      cos t * (sqrt (a\<^sup>2 + b\<^sup>2) * cos (arctan2 b a)) +
      sin t * (sqrt (a\<^sup>2 + b\<^sup>2) * sin (arctan2 b a))"
    by (simp add: cos_diff algebra_simps)
  then show ?thesis by (simp add: arctan2_polar)
qed

lemma harmonic_plus:
  "sqrt (a\<^sup>2 + b\<^sup>2) * cos (t + arctan2 b a) = a * cos t - b * sin t"
proof -
  have "sqrt (a\<^sup>2 + b\<^sup>2) * cos (t + arctan2 b a) =
      cos t * (sqrt (a\<^sup>2 + b\<^sup>2) * cos (arctan2 b a)) -
      sin t * (sqrt (a\<^sup>2 + b\<^sup>2) * sin (arctan2 b a))"
    by (simp add: cos_add algebra_simps)
  then show ?thesis by (simp add: arctan2_polar)
qed

lemma round_trip_angles:
  "cartesian2polar (polar2cartesian p) ''phi12'' =
     Some (- arctan2 (default0 p ''C12'' * sin (2 * default0 p ''phi12''))
                     (- default0 p ''C12'' * cos (2 * default0 p ''phi12'')) / 2)"
  "cartesian2polar (polar2cartesian p) ''phi21'' =
     Some (arctan2 (default0 p ''C21'' * sin (default0 p ''phi21''))
                   (default0 p ''C21'' * cos (default0 p ''phi21'')))"
  "cartesian2polar (polar2cartesian p) ''phi23'' =
     Some (- arctan2 (- default0 p ''C23'' * sin (3 * default0 p ''phi23''))
                     (default0 p ''C23'' * cos (3 * default0 p ''phi23'')) / 3)"
  "cartesian2polar (polar2cartesian p) ''phi32'' =
     Some (- arctan2 (default0 p ''C32'' * sin (2 * default0 p ''phi32''))
                     (- default0 p ''C32'' * cos (2 * default0 p ''phi32'')) / 2)"
  "cartesian2polar (polar2cartesian p) ''phi34'' =
     Some (arctan2 (default0 p ''C34'' * sin (4 * default0 p ''phi34''))
                   (default0 p ''C34'' * cos (4 * default0 p ''phi34'')) / 4)"
  unfolding cartesian2polar_def polar2cartesian_trig Let_def
  by (simp_all add: default0_simps)

lemma term_one_fold:
  "\<bar>c\<bar> * cos (x - arctan2 (c * sin f) (c * cos f)) = c * cos (x - f)"
proof -
  have m: "\<bar>c\<bar> = sqrt ((c * cos f)\<^sup>2 + (c * sin f)\<^sup>2)"
    using magnitude(1)[of c f] by simp
  show ?thesis
    unfolding m by (simp only: harmonic_minus) (simp add: cos_diff algebra_simps)
qed

lemma term_two_fold:
  "- \<bar>c\<bar> * cos (2 * (x - (- arctan2 (c * sin (2 * f)) (- c * cos (2 * f)) / 2))) =
     c * cos (2 * (x - f))"
proof -
  have m: "\<bar>c\<bar> = sqrt ((- c * cos (2 * f))\<^sup>2 + (c * sin (2 * f))\<^sup>2)"
    using magnitude(1)[of c "2 * f"] by simp
  have "2 * (x - (- arctan2 (c * sin (2 * f)) (- c * cos (2 * f)) / 2)) =
      2 * x + arctan2 (c * sin (2 * f)) (- c * cos (2 * f))" by simp
  then show ?thesis
    unfolding m by (simp only: mult_minus_left harmonic_plus) (simp add: cos_diff algebra_simps)
qed

lemma term_three_fold:
  "\<bar>c\<bar> * cos (3 * (x - (- arctan2 (- c * sin (3 * f)) (c * cos (3 * f)) / 3))) =
     c * cos (3 * (x - f))"
proof -
  have m: "\<bar>c\<bar> = sqrt ((c * cos (3 * f))\<^sup>2 + (- c * sin (3 * f))\<^sup>2)"
    using magnitude(1)[of c "3 * f"] by simp
  have e: "3 * (x - (- arctan2 (- c * sin (3 * f)) (c * cos (3 * f)) / 3)) =
      3 * x + arctan2 (- c * sin (3 * f)) (c * cos (3 * f))" by simp
  show ?thesis
    unfolding m e by (simp only: harmonic_plus) (simp add: cos_diff algebra_simps)
qed

lemma term_four_fold:
  "\<bar>c\<bar> * cos (4 * (x - arctan2 (c * sin (4 * f)) (c * cos (4 * f)) / 4)) =
     c * cos (4 * (x - f))"
proof -
  have m: "\<bar>c\<bar> = sqrt ((c * cos (4 * f))\<^sup>2 + (c * sin (4 * f))\<^sup>2)"
    using magnitude(1)[of c "4 * f"] by simp
  have e: "4 * (x - arctan2 (c * sin (4 * f)) (c * cos (4 * f)) / 4) =
      4 * x - arctan2 (c * sin (4 * f)) (c * cos (4 * f))" by simp
  show ?thesis
    unfolding m e by (simp only: harmonic_minus) (simp add: cos_diff algebra_simps)
qed

text \<open>
  C2: for every polar mapping \<open>p\<close> (a missing key reads as 0), the round trip
  \<^verbatim>\<open>cartesian2polar(polar2cartesian(p))\<close> returns \<^verbatim>\<open>C10\<close> and \<^verbatim>\<open>C30\<close> as they
  are and \<^verbatim>\<open>C12\<close>, \<^verbatim>\<open>C21\<close>, \<^verbatim>\<open>C23\<close>, \<^verbatim>\<open>C32\<close>, \<^verbatim>\<open>C34\<close> with their
  magnitudes (absolute values); by the sign conventions of \<^verbatim>\<open>cartesian2polar\<close> the
  values of \<^verbatim>\<open>C12\<close> and \<^verbatim>\<open>C32\<close> come back not positive and those of
  \<^verbatim>\<open>C21\<close>, \<^verbatim>\<open>C23\<close>, \<^verbatim>\<open>C34\<close> not negative. The angles change with these
  conventions only: every term \<open>C * cos (m * (x - phi))\<close> of the expansion is the same
  function of \<open>x\<close> before and after.
\<close>

theorem polar_round_trip:
  "(let P = default0 p; P' = default0 (cartesian2polar (polar2cartesian p)) in
     P' ''C10'' = P ''C10'' \<and> P' ''C30'' = P ''C30''
     \<and> \<bar>P' ''C12''\<bar> = \<bar>P ''C12''\<bar> \<and> \<bar>P' ''C21''\<bar> = \<bar>P ''C21''\<bar> \<and> \<bar>P' ''C23''\<bar> = \<bar>P ''C23''\<bar>
     \<and> \<bar>P' ''C30''\<bar> = \<bar>P ''C30''\<bar> \<and> \<bar>P' ''C32''\<bar> = \<bar>P ''C32''\<bar> \<and> \<bar>P' ''C34''\<bar> = \<bar>P ''C34''\<bar>
     \<and> P' ''C12'' = - \<bar>P ''C12''\<bar> \<and> P' ''C21'' = \<bar>P ''C21''\<bar> \<and> P' ''C23'' = \<bar>P ''C23''\<bar>
     \<and> P' ''C32'' = - \<bar>P ''C32''\<bar> \<and> P' ''C34'' = \<bar>P ''C34''\<bar>
     \<and> (\<forall>x. P' ''C12'' * cos (2 * (x - P' ''phi12'')) = P ''C12'' * cos (2 * (x - P ''phi12'')))
     \<and> (\<forall>x. P' ''C21'' * cos (x - P' ''phi21'') = P ''C21'' * cos (x - P ''phi21''))
     \<and> (\<forall>x. P' ''C23'' * cos (3 * (x - P' ''phi23'')) = P ''C23'' * cos (3 * (x - P ''phi23'')))
     \<and> (\<forall>x. P' ''C32'' * cos (2 * (x - P' ''phi32'')) = P ''C32'' * cos (2 * (x - P ''phi32'')))
     \<and> (\<forall>x. P' ''C34'' * cos (4 * (x - P' ''phi34'')) = P ''C34'' * cos (4 * (x - P ''phi34''))))"
proof -
  have v: "default0 (cartesian2polar (polar2cartesian p)) ''C10'' = default0 p ''C10''"
    "default0 (cartesian2polar (polar2cartesian p)) ''C30'' = default0 p ''C30''"
    "default0 (cartesian2polar (polar2cartesian p)) ''C12'' = - \<bar>default0 p ''C12''\<bar>"
    "default0 (cartesian2polar (polar2cartesian p)) ''C21'' = \<bar>default0 p ''C21''\<bar>"
    "default0 (cartesian2polar (polar2cartesian p)) ''C23'' = \<bar>default0 p ''C23''\<bar>"
    "default0 (cartesian2polar (polar2cartesian p)) ''C32'' = - \<bar>default0 p ''C32''\<bar>"
    "default0 (cartesian2polar (polar2cartesian p)) ''C34'' = \<bar>default0 p ''C34''\<bar>"
    by (simp_all add: default0_def[of "cartesian2polar _"] round_trip_values)
  have a: "default0 (cartesian2polar (polar2cartesian p)) ''phi12'' =
      - arctan2 (default0 p ''C12'' * sin (2 * default0 p ''phi12''))
                     (- default0 p ''C12'' * cos (2 * default0 p ''phi12'')) / 2"
    "default0 (cartesian2polar (polar2cartesian p)) ''phi21'' =
       arctan2 (default0 p ''C21'' * sin (default0 p ''phi21''))
                   (default0 p ''C21'' * cos (default0 p ''phi21''))"
    "default0 (cartesian2polar (polar2cartesian p)) ''phi23'' =
      - arctan2 (- default0 p ''C23'' * sin (3 * default0 p ''phi23''))
                     (default0 p ''C23'' * cos (3 * default0 p ''phi23'')) / 3"
    "default0 (cartesian2polar (polar2cartesian p)) ''phi32'' =
      - arctan2 (default0 p ''C32'' * sin (2 * default0 p ''phi32''))
                     (- default0 p ''C32'' * cos (2 * default0 p ''phi32'')) / 2"
    "default0 (cartesian2polar (polar2cartesian p)) ''phi34'' =
      arctan2 (default0 p ''C34'' * sin (4 * default0 p ''phi34''))
                   (default0 p ''C34'' * cos (4 * default0 p ''phi34'')) / 4"
    by (simp_all add: default0_def[of "cartesian2polar _"] round_trip_angles)
  show ?thesis
    unfolding Let_def v a
    by (simp only: term_one_fold term_two_fold term_three_fold term_four_fold abs_minus_cancel
        abs_abs simp_thms)
qed

section \<open>The cache of the grid evaluation\<close>

lemma Cache_simps:
  "cached (Cache n) = []" "max_size (Cache n) = n" "misses (Cache n) = 0"
  by (simp_all add: Cache_def)

lemma cache_insert_lookup:
  assumes "1 \<le> max_size c" "map_of (cached c) k = None"
  shows "map_of (cached (cache_insert k v c)) k = Some v"
proof -
  define n where "n = length (cached c @ [(k, v)]) - max_size c"
  have n: "n \<le> length (cached c)" using assms(1) by (simp add: n_def)
  have "k \<notin> fst ` set (cached c)" using assms(2) by (simp add: map_of_eq_None_iff)
  then have "k \<notin> fst ` set (drop n (cached c))" using set_drop_subset[of n "cached c"] by auto
  then have none: "map_of (drop n (cached c)) k = None" by (simp add: map_of_eq_None_iff)
  have "cached (cache_insert k v c) = drop n (cached c @ [(k, v)])"
    unfolding cache_insert_def Let_def n_def by simp
  also have "\<dots> = drop n (cached c) @ [(k, v)]" using n by simp
  finally show ?thesis using none by (simp add: map_add_def)
qed

lemma evaluate_on_grid_hit:
  "map_of (cached (self_cache s)) grid = Some result \<Longrightarrow>
     evaluate_on_grid grid s = (Inr result, s)"
  by (simp add: evaluate_on_grid_def)

lemma evaluate_on_grid_fresh:
  assumes "1 \<le> max_size (self_cache s)" "evaluate_on_grid grid s = (Inr result, s')"
  shows "map_of (cached (self_cache s')) grid = Some result"
proof (cases "map_of (cached (self_cache s)) grid")
  case None
  with assms(2) have b: "evaluate_on_grid_body grid s = Inr result"
    and s': "s' = s\<lparr>self_cache := (cache_insert grid result (self_cache s))
                      \<lparr>misses := misses (self_cache s) + 1\<rparr>\<rparr>"
    by (auto simp: evaluate_on_grid_def split: sum.splits)
  show ?thesis using cache_insert_lookup[OF assms(1) None, of result] by (simp add: s')
next
  case (Some r)
  with assms(2) show ?thesis by (simp add: evaluate_on_grid_def)
qed

lemma evaluate_on_grid_counts:
  assumes "evaluate_on_grid grid s = (Inr result, s')"
  shows "misses (self_cache s') =
           (if map_of (cached (self_cache s)) grid = None then misses (self_cache s) + 1
            else misses (self_cache s))"
proof (cases "map_of (cached (self_cache s)) grid")
  case None
  with assms have "s' = s\<lparr>self_cache := (cache_insert grid result (self_cache s))
                      \<lparr>misses := misses (self_cache s) + 1\<rparr>\<rparr>"
    by (auto simp: evaluate_on_grid_def split: sum.splits)
  with None show ?thesis by simp
next
  case (Some r)
  with assms show ?thesis by (simp add: evaluate_on_grid_def)
qed

text \<open>
  C3: when \<^verbatim>\<open>evaluate_on_grid\<close> has returned an array for a grid, the cache holds
  that array under the grid; the call has counted one recomputation if the cache had no
  entry for the grid, and none otherwise; and a second call with the same grid and no
  mutation in between returns the cached array, leaves the state as it is and counts
  no recomputation. The cache of a CTF has the capacity 1.
\<close>

theorem evaluate_on_grid_cached:
  assumes "1 \<le> max_size (self_cache s)" "evaluate_on_grid grid s = (Inr result, s')"
  shows "map_of (cached (self_cache s')) grid = Some result
     \<and> misses (self_cache s') =
           (if map_of (cached (self_cache s)) grid = None then misses (self_cache s) + 1
            else misses (self_cache s))
     \<and> evaluate_on_grid grid s' = (Inr result, s')
     \<and> misses (self_cache (snd (evaluate_on_grid grid s'))) = misses (self_cache s')"
proof -
  have c: "map_of (cached (self_cache s')) grid = Some result"
    using assms by (rule evaluate_on_grid_fresh)
  then have "evaluate_on_grid grid s' = (Inr result, s')"
    by (rule evaluate_on_grid_hit)
  with c evaluate_on_grid_counts[OF assms(2)] show ?thesis by simp
qed

lemma body_zero:
  assumes "\<forall>k\<in>set polar_symbols. self_parameters s k = Some 0"
    and "self_semiangle_cutoff s = Infinity" "self_focal_spread s = 0"
    "self_angular_spread s = 0" "self_gaussian_spread s = 0"
    and "self_wavelength s = Some w" "w \<noteq> 0" and "grid_defined grid"
  shows "evaluate_on_grid_body grid s = Inr (\<lambda>i. 1)"
  using evaluate_zero[OF assms(1-7)] assms(6,8)
  by (simp add: evaluate_on_grid_body_def wavelength_of_def bind_err_def)

lemma first_call:
  "evaluate_on_grid \<lparr>grid_defined = True, kx = f, ky = g\<rparr> (default_ctf (Some 1)) =
    (Inr (\<lambda>i. 1),
     (default_ctf (Some 1))\<lparr>self_cache :=
        \<lparr>max_size = 1, cached = [(\<lparr>grid_defined = True, kx = f, ky = g\<rparr>, \<lambda>i. 1)], misses = 1\<rparr>\<rparr>)"
proof -
  have b: "evaluate_on_grid_body \<lparr>grid_defined = True, kx = f, ky = g\<rparr> (default_ctf (Some 1))
      = Inr (\<lambda>i. 1)"
    by (rule body_zero[where w = 1]) (simp_all add: zero_parameters_lookup)
  show ?thesis
    unfolding evaluate_on_grid_def b by (simp add: Cache_def cache_insert_def)
qed

theorem evaluate_on_grid_cached_witness:
  "(let g = \<lparr>grid_defined = True, kx = (\<lambda>i::unit. 1), ky = (\<lambda>j::unit. 0)\<rparr>;
        s0 = default_ctf (Some 1);
        (r1, s1) = evaluate_on_grid g s0;
        (r2, s2) = evaluate_on_grid g s1
    in r1 = Inr (\<lambda>i. 1) \<and> map_of (cached (self_cache s0)) g = None
       \<and> map_of (cached (self_cache s1)) g = Some (\<lambda>i. 1)
       \<and> misses (self_cache s0) = 0 \<and> misses (self_cache s1) = 1
       \<and> r2 = Inr (\<lambda>i. 1) \<and> s2 = s1 \<and> misses (self_cache s2) = 1)"
proof -
  let ?g = "\<lparr>grid_defined = True, kx = (\<lambda>i::unit. 1), ky = (\<lambda>j::unit. 0)\<rparr>"
  let ?s1 = "(default_ctf (Some 1))\<lparr>self_cache :=
        \<lparr>max_size = 1, cached = [(?g, \<lambda>i. 1 :: complex)], misses = 1\<rparr>\<rparr>"
  have 1: "evaluate_on_grid ?g (default_ctf (Some 1)) = (Inr (\<lambda>i. 1), ?s1)"
    by (rule first_call)
  have m: "1 \<le> max_size (self_cache (default_ctf (Some 1) :: (unit, unit) ctf))"
    by (simp add: Cache_simps)
  from evaluate_on_grid_cached[OF m 1]
  have 2: "evaluate_on_grid ?g ?s1 = (Inr (\<lambda>i. 1), ?s1)" by blast
  show ?thesis
    unfolding Let_def 1 2 prod.case by (simp add: Cache_simps)
qed

text \<open>
  The setters notify, and the observer of a CTF clears the cache: after any of them
  the next \<^verbatim>\<open>evaluate_on_grid\<close> recomputes. \<^verbatim>\<open>set_parameters\<close> changes neither
  the cache nor the event.
\<close>

lemma set_parameters_state:
  "snd (set_parameters parameters s) =
     s\<lparr>self_parameters := snd (set_parameters_items parameters (self_parameters s))\<rparr>"
  by (simp add: set_parameters_def split: prod.splits option.splits)

lemma set_parameters_silent:
  "self_cache (snd (set_parameters parameters s)) = self_cache s"
  "self_changed (snd (set_parameters parameters s)) = self_changed s"
  by (simp_all add: set_parameters_state)

lemma run_callbacks_clears:
  "cs \<noteq> [] \<Longrightarrow> cached (self_cache (run_callbacks cs s)) = []"
proof (induction cs arbitrary: s)
  case Nil
  then show ?case by simp
next
  case (Cons c cs)
  show ?case
  proof (cases cs)
    case Nil
    then show ?thesis by (cases c) (simp add: cache_clear_def)
  next
    case (Cons c' cs')
    then show ?thesis using Cons.IH by (cases c) simp
  qed
qed

lemma notify_clears:
  "callbacks (self_changed s) \<noteq> [] \<Longrightarrow> cached (self_cache (notify s)) = []"
  by (simp add: notify_def run_callbacks_clears)

lemma run_callbacks_changed: "self_changed (run_callbacks cs s) = self_changed s"
  by (induction cs s rule: run_callbacks.induct) simp_all

lemma notify_counts:
  "notify_count (self_changed (notify s)) = notify_count (self_changed s) + 1"
  by (simp add: notify_def run_callbacks_changed)

lemma property_mutation_clears:
  assumes "callbacks (self_changed s) \<noteq> []" "is_property m"
  shows "cached (self_cache (mutate m s)) = []"
proof (cases m)
  case (Set_alias key v)
  with assms(2) obtain t where "map_of polar_aliases key = Some t"
    using alias_some[of key] by auto
  with Set_alias assms(1) show ?thesis
    by (simp add: parametrization_setter_def notify_clears)
next
  case (Set_parameters ps)
  with assms(2) show ?thesis by simp
qed (use assms(1) in \<open>simp_all add: parametrization_setter_def set_defocus_def set_semiangle_cutoff_def
    set_rolloff_def set_focal_spread_def set_angular_spread_def set_gaussian_spread_def notify_clears\<close>)

lemma evaluate_on_grid_miss:
  "cached (self_cache s) = [] \<Longrightarrow> evaluate_on_grid grid s = (Inr result, s') \<Longrightarrow>
     evaluate_on_grid_body grid s = Inr result \<and> misses (self_cache s') = misses (self_cache s) + 1"
  by (auto simp: evaluate_on_grid_def cache_insert_def Let_def split: sum.splits)

lemma cis_minus_pi: "cis (- pi) = - 1"
  by (simp add: complex_eq_iff)

lemma body_C30:
  assumes "\<forall>k\<in>set polar_symbols. self_parameters s k = Some (((\<lambda>k. 0)(''C30'' := 2)) k)"
    and "self_semiangle_cutoff s = Infinity" "self_focal_spread s = 0"
    "self_angular_spread s = 0" "self_gaussian_spread s = 0"
    and "self_wavelength s = Some 1"
  shows "evaluate_on_grid_body \<lparr>grid_defined = True, kx = (\<lambda>i::unit. 1), ky = (\<lambda>j::unit. 0)\<rparr> s
           = Inr (\<lambda>i. - 1)"
proof -
  have "calculate_polar_chi (\<lambda>p::unit \<times> unit. 1) (\<lambda>p. arctan2 1 0) 1 (self_parameters s)
          = Inr (\<lambda>i. pi)"
    using calculate_polar_chi_full[OF assms(1), of 1 "\<lambda>p. 1" "\<lambda>p. arctan2 1 0"]
    by (simp add: polar_chi_naive_unfold)
  then have "evaluate_aberrations (\<lambda>p::unit \<times> unit. 1) (\<lambda>p. arctan2 1 0) s = Inr (\<lambda>i. - 1)"
    using assms(6)
    by (simp add: evaluate_aberrations_def wavelength_of_def bind_err_def
        calculate_polar_aberrations_def complex_exponential_def cis_minus_pi)
  then show ?thesis using assms(2-6)
    by (simp add: evaluate_on_grid_body_def evaluate_def wavelength_of_def bind_err_def split_def)
qed

lemma set_parameters_then_cached:
  assumes "map_of (cached (self_cache s)) grid = Some result"
  shows "fst (evaluate_on_grid grid (snd (set_parameters parameters s))) = Inr result"
    and "misses (self_cache (snd (evaluate_on_grid grid (snd (set_parameters parameters s))))) =
         misses (self_cache s)"
  using assms by (simp_all add: evaluate_on_grid_def set_parameters_silent)

text \<open>
  C1 at a failing input: a CTF with the default arguments and the wavelength 1 is
  evaluated on a grid of one point, then \<^verbatim>\<open>set_parameters({'C30': 2})\<close> is called,
  then the CTF is evaluated on the same grid. The call of \<^verbatim>\<open>set_parameters\<close> stores
  the new coefficient and leaves the cache and the event as they were; the second
  evaluation returns the cached array of ones and does not recompute, although the
  body of \<^verbatim>\<open>evaluate_on_grid\<close> on the new state gives - 1.
\<close>

theorem set_parameters_keeps_cache:
  "(let g = \<lparr>grid_defined = True, kx = (\<lambda>i::unit. 1), ky = (\<lambda>j::unit. 0)\<rparr>;
        (r1, s1) = evaluate_on_grid g (default_ctf (Some 1));
        (r2, s2) = set_parameters [(''C30'', 2)] s1;
        (r3, s3) = evaluate_on_grid g s2
    in r1 = Inr (\<lambda>i. 1) \<and> misses (self_cache s1) = 1
       \<and> r2 = Inr [(''C30'', 2)] \<and> self_parameters s2 ''C30'' = Some 2
       \<and> self_cache s2 = self_cache s1 \<and> self_changed s2 = self_changed s1
       \<and> r3 = Inr (\<lambda>i. 1) \<and> misses (self_cache s3) = 1
       \<and> evaluate_on_grid_body g s2 = Inr (\<lambda>i. - 1))"
proof -
  let ?g = "\<lparr>grid_defined = True, kx = (\<lambda>i::unit. 1), ky = (\<lambda>j::unit. 0)\<rparr>"
  let ?c = "\<lparr>max_size = 1, cached = [(?g, \<lambda>i. 1 :: complex)], misses = 1\<rparr>"
  let ?s1 = "(default_ctf (Some 1))\<lparr>self_cache := ?c\<rparr>"
  let ?s2 = "?s1\<lparr>self_parameters :=
      (map_of (zip polar_symbols (replicate (length polar_symbols) 0)))(''C30'' \<mapsto> 2)\<rparr>"
  have 1: "evaluate_on_grid ?g (default_ctf (Some 1)) = (Inr (\<lambda>i. 1), ?s1)"
    by (rule first_call)
  have 2: "set_parameters [(''C30'', 2)] ?s1 = (Inr [(''C30'', 2)], ?s2)"
    by (simp add: set_parameters_def polar_symbols_def)
  have 3: "evaluate_on_grid ?g ?s2 = (Inr (\<lambda>i. 1), ?s2)"
    by (rule evaluate_on_grid_hit) simp
  have 4: "evaluate_on_grid_body ?g ?s2 = Inr (\<lambda>i. - 1)"
    by (rule body_C30) (simp_all add: polar_symbols_def)
  show ?thesis
    unfolding Let_def 1 2 3 prod.case using 4 by simp
qed

end
